theory Spec2Isabelle
  imports Complex_Main "HOL-Library.Sublist"
begin

text \<open>
  The task supervision core of the pipeline: \<open>_common/spawner.py\<close> (spawning and watching
  a child process, classifying its failure, escalating), \<open>_common/health_checker.py\<close>
  and \<open>_common/retry_handler.py\<close>. Functions keep the names of the source without the
  leading underscore of private methods; a field keeps its name unless the name is taken,
  and then carries a prefix or suffix that its record explains.

  Of the logging, the calls of \<open>debug\<close>, \<open>info\<close>, \<open>warn\<close>, \<open>error\<close>, \<open>separator\<close> and
  \<open>write_to_file_only\<close> are left out: \<open>_common/logger.py\<close> defines them and they only
  print. The class \<open>Logger\<close> defines no method \<open>warning\<close> and no \<open>__getattr__\<close>, so every
  \<open>logger.warning(...)\<close> of \<open>health_checker.py\<close> and \<open>retry_handler.py\<close> raises
  \<open>AttributeError\<close> where it stands; those calls are part of the model.
\<close>

section \<open>Python values shared by the modules\<close>

text \<open>
  An exception object: the name of its class, the names of the proper ancestors of that
  class below \<open>Exception\<close>, and the text \<open>str(e)\<close>. Only instances of subclasses of
  \<open>Exception\<close> are modelled (what \<open>except Exception\<close> catches); \<open>KeyboardInterrupt\<close> and
  \<open>SystemExit\<close> are not values of this type. Exception objects are truthy, as the
  instances of every built-in exception class are.
\<close>

record py_exception =
  exc_class :: string
  exc_bases :: "string list"
  exc_msg :: string

definition exc_ancestors :: "py_exception \<Rightarrow> string list" where
  "exc_ancestors e = exc_class e # exc_bases e @ [''Exception'', ''BaseException'', ''object'']"

text \<open>\<open>isinstance(e, classes)\<close> for a tuple of classes given by name.\<close>

definition isinstance :: "py_exception \<Rightarrow> string list \<Rightarrow> bool" where
  "isinstance e classes = list_ex (\<lambda>c. c \<in> set (exc_ancestors e)) classes"

definition RuntimeError :: "string \<Rightarrow> py_exception" where
  "RuntimeError m = \<lparr>exc_class = ''RuntimeError'', exc_bases = [], exc_msg = m\<rparr>"

definition ValueError :: "string \<Rightarrow> py_exception" where
  "ValueError m = \<lparr>exc_class = ''ValueError'', exc_bases = [], exc_msg = m\<rparr>"

definition ZeroDivisionError :: "string \<Rightarrow> py_exception" where
  "ZeroDivisionError m =
     \<lparr>exc_class = ''ZeroDivisionError'', exc_bases = [''ArithmeticError''], exc_msg = m\<rparr>"

definition OverflowError :: "string \<Rightarrow> py_exception" where
  "OverflowError m =
     \<lparr>exc_class = ''OverflowError'', exc_bases = [''ArithmeticError''], exc_msg = m\<rparr>"

definition AttributeError :: "string \<Rightarrow> py_exception" where
  "AttributeError m = \<lparr>exc_class = ''AttributeError'', exc_bases = [], exc_msg = m\<rparr>"

text \<open>
  \<open>logger.warning(...)\<close> on an instance of \<open>Logger\<close>: the attribute lookup fails before
  the argument is evaluated. The value is the exception the call raises.
\<close>

definition no_warning_method :: py_exception where
  "no_warning_method =
     AttributeError (CHR 0x27 # ''Logger' object has no attribute 'warning'' @ [CHR 0x27])"

definition logger_warning :: "py_exception option" where
  "logger_warning = Some no_warning_method"

text \<open>
  \<open>time.sleep(secs)\<close>: raises \<open>ValueError\<close> for a negative length, otherwise returns
  after the wait. Floats are modelled as reals throughout (no NaN, no rounding).
\<close>

definition sleep :: "real \<Rightarrow> py_exception option" where
  "sleep secs =
     (if secs < 0 then Some (ValueError ''sleep length must be non-negative'') else None)"

text \<open>\<open>str(n)\<close> for a Python int, as the f-strings of the source print it.\<close>

definition digit_char :: "nat \<Rightarrow> char" where
  "digit_char d = char_of (48 + d)"

fun str_nat :: "nat \<Rightarrow> string" where
  "str_nat n = (if n < 10 then [digit_char n] else str_nat (n div 10) @ [digit_char (n mod 10)])"

definition str_int :: "int \<Rightarrow> string" where
  "str_int i = (if i < 0 then CHR ''-'' # str_nat (nat (- i)) else str_nat (nat i))"

section \<open>spawner.py: the data model\<close>

datatype TaskStatus = PENDING | RUNNING | COMPLETED | FAILED | TIMEOUT | CRITICAL_ERROR

datatype ErrorSeverity = RECOVERABLE | CRITICAL | FATAL

datatype EscalationAction = CONTINUE | STOP_PIPELINE | RETRY | ASK_HUMAN

record CriticalError =
  message :: string
  severity :: ErrorSeverity
  task_id :: string
  stage_name :: string
  error_details :: "string option"
  suggested_action :: "string option"
  timestamp :: real

text \<open>\<open>TaskResult\<close>; its field \<open>output\<close> is \<open>output_text\<close> here.\<close>

record TaskResult =
  success :: bool
  output_text :: string
  error :: "string option"
  exit_code :: int
  duration_seconds :: real
  status :: TaskStatus
  error_severity :: "ErrorSeverity option"
  critical_error :: "CriticalError option"

text \<open>
  \<open>BackgroundTask\<close>. Its fields carry the prefix \<open>bt_\<close> where the name is already a
  field of another record, and \<open>_result\<close>, \<open>_stdout_file\<close>, \<open>_stderr_file\<close> lose their
  underscore; \<open>process\<close> holds the pid of the child, and the thread handle \<open>_thread\<close> is
  left out.
\<close>

record BackgroundTask =
  bt_task_id :: string
  bt_stage_name :: string
  process :: "int option"
  bt_status :: TaskStatus
  start_time :: real
  timeout :: int
  result :: "TaskResult option"
  stdout_file :: "string option"
  stderr_file :: "string option"

definition is_running :: "BackgroundTask \<Rightarrow> bool" where
  "is_running t = (bt_status t = RUNNING)"

definition is_done :: "BackgroundTask \<Rightarrow> bool" where
  "is_done t = (bt_status t \<in> set [COMPLETED, FAILED, TIMEOUT])"

text \<open>
  \<open>get_result\<close>. The task is written by its worker thread while the caller polls it, so
  the caller's view of the task is a sequence of observations: \<open>view k\<close> is the task as
  the \<open>k\<close>-th test of the loop condition sees it. The loop \<open>while not self.is_done():
  time.sleep(poll_interval)\<close> has no bound; \<open>await_done\<close> is \<open>None\<close> when it never ends,
  otherwise the index of the observation that ended it or the exception of the sleep.
  The reads after the loop are taken from that same observation; \<open>now\<close> is the reading
  of \<open>time.time()\<close> there.
\<close>

partial_function (option) await_done ::
  "(nat \<Rightarrow> BackgroundTask) \<Rightarrow> real \<Rightarrow> nat \<Rightarrow> (py_exception + nat) option" where
  "await_done view poll_interval k =
     (if \<not> is_done (view k) then
        (case sleep poll_interval of
           Some e \<Rightarrow> Some (Inl e)
         | None \<Rightarrow> await_done view poll_interval (Suc k))
      else Some (Inr k))"

definition current_state :: "BackgroundTask \<Rightarrow> real \<Rightarrow> TaskResult" where
  "current_state t now =
     (case result t of
        Some r \<Rightarrow> r
      | None \<Rightarrow>
          \<lparr>success = False, output_text = '''', error = Some ''Task still running'', exit_code = - 1,
           duration_seconds = (if start_time t \<noteq> 0 then now - start_time t else 0),
           status = bt_status t, error_severity = None, critical_error = None\<rparr>)"

definition get_result ::
  "(nat \<Rightarrow> BackgroundTask) \<Rightarrow> bool \<Rightarrow> real \<Rightarrow> real \<Rightarrow> (py_exception + TaskResult) option" where
  "get_result view block poll_interval now =
     (if block then
        (case await_done view poll_interval 0 of
           None \<Rightarrow> None
         | Some (Inl e) \<Rightarrow> Some (Inl e)
         | Some (Inr k) \<Rightarrow> Some (Inr (current_state (view k) now)))
      else Some (Inr (current_state (view 0) now)))"


section \<open>spawner.py: error classification and escalation\<close>

text \<open>
  \<open>str.lower()\<close> and the substring test \<open>needle in haystack\<close>. Text is modelled as
  ASCII: \<open>lower_char\<close> maps \<open>A\<close>..\<open>Z\<close> to \<open>a\<close>..\<open>z\<close> and leaves every other character
  as it is.
\<close>

definition lower_char :: "char \<Rightarrow> char" where
  "lower_char c =
     (let n = (of_char c :: nat) in if 65 \<le> n \<and> n \<le> 90 then char_of (n + 32) else c)"

definition lower :: "string \<Rightarrow> string" where
  "lower s = map lower_char s"

fun str_contains :: "string \<Rightarrow> string \<Rightarrow> bool" where
  "str_contains [] needle = (needle = [])"
| "str_contains (c # cs) needle = (prefix needle (c # cs) \<or> str_contains cs needle)"

definition critical_patterns :: "string list" where
  "critical_patterns =
     [''API rate limit'', ''Authentication failed'', ''Permission denied'', ''Out of memory'',
      ''Disk full'', ''Network unreachable'', ''Internal server error'', ''CRITICAL'']"

definition recoverable_patterns :: "string list" where
  "recoverable_patterns =
     [''Connection timeout'', ''Temporary failure'', ''Resource temporarily unavailable'',
      ''Try again'']"

text \<open>The loop \<open>for pattern in patterns: if pattern.lower() in error_lower: return ...\<close>.\<close>

fun any_pattern_in :: "string list \<Rightarrow> string \<Rightarrow> bool" where
  "any_pattern_in [] error_lower = False"
| "any_pattern_in (pattern # rest) error_lower =
     (if str_contains error_lower (lower pattern) then True else any_pattern_in rest error_lower)"

definition classify_error_severity :: "int \<Rightarrow> string \<Rightarrow> TaskStatus \<Rightarrow> ErrorSeverity" where
  "classify_error_severity code error_output st =
     (if st = TIMEOUT then FATAL
      else
        let error_lower = lower error_output in
        if any_pattern_in critical_patterns error_lower then CRITICAL
        else if any_pattern_in recoverable_patterns error_lower then RECOVERABLE
        else if code = 0 then RECOVERABLE
        else if code < 0 then CRITICAL
        else if code \<ge> 100 then CRITICAL
        else RECOVERABLE)"

text \<open>
  The reference definition of the classifier, written from the words of the specification:
  two characters are the same letter when they are equal or are the upper-case and
  lower-case form of one letter; a text contains a pattern case-insensitively when some
  window of the text has the pattern's length and agrees with it letter by letter.
\<close>

definition is_upper :: "char \<Rightarrow> bool" where
  "is_upper c = ((of_char (CHR ''A'') :: nat) \<le> of_char c \<and> (of_char c :: nat) \<le> of_char (CHR ''Z''))"

definition same_letter :: "char \<Rightarrow> char \<Rightarrow> bool" where
  "same_letter a b =
     (a = b \<or> (is_upper a \<and> (of_char b :: nat) = of_char a + 32)
            \<or> (is_upper b \<and> (of_char a :: nat) = of_char b + 32))"

definition contains_ignoring_case :: "string \<Rightarrow> string \<Rightarrow> bool" where
  "contains_ignoring_case s p =
     (\<exists>i \<in> {0..length s}. length p \<le> length s - i \<and>
        list_all2 same_letter (take (length p) (drop i s)) p)"

definition spec_critical_patterns :: "string list" where
  "spec_critical_patterns =
     [''API rate limit'', ''Authentication failed'', ''Permission denied'', ''Out of memory'',
      ''Disk full'', ''Network unreachable'', ''Internal server error'', ''CRITICAL'']"

definition spec_transient_patterns :: "string list" where
  "spec_transient_patterns =
     [''Connection timeout'', ''Temporary failure'', ''Resource temporarily unavailable'',
      ''Try again'']"

definition reference_severity :: "int \<Rightarrow> string \<Rightarrow> TaskStatus \<Rightarrow> ErrorSeverity" where
  "reference_severity c s st =
     (if st = TIMEOUT then FATAL
      else if (\<exists>p \<in> set spec_critical_patterns. contains_ignoring_case s p) then CRITICAL
      else if (\<exists>p \<in> set spec_transient_patterns. contains_ignoring_case s p) then RECOVERABLE
      else if c = 0 then RECOVERABLE
      else if c < 0 then CRITICAL
      else if c \<ge> 100 then CRITICAL
      else RECOVERABLE)"

text \<open>
  The spawner object. Of its fields the model keeps the ones the failure paths read or
  write; the logger, the model name, the output switches, the task counter and the two
  process registries are left out, and every logging call with them. The decision
  callback \<open>on_critical_error\<close> is a Python closure: it is given, next to the error, the
  history it can read through \<open>get_critical_errors()\<close> at the moment it is called, and it
  either raises or returns an action.
\<close>

record ClaudeSpawner =
  project_root :: string
  timeout_seconds :: int
  on_critical_error ::
    "(CriticalError list \<Rightarrow> CriticalError \<Rightarrow> py_exception + EscalationAction) option"
  default_escalation :: EscalationAction
  critical_errors :: "CriticalError list"

definition handle_critical_error ::
  "ClaudeSpawner \<Rightarrow> CriticalError \<Rightarrow> EscalationAction \<times> ClaudeSpawner" where
  "handle_critical_error self err =
     (let self1 = self\<lparr>critical_errors := critical_errors self @ [err]\<rparr> in
      case on_critical_error self1 of
        Some handler \<Rightarrow>
          (case handler (critical_errors self1) err of
             Inr action \<Rightarrow> (action, self1)
           | Inl e \<Rightarrow> (default_escalation self1, self1))
      | None \<Rightarrow> (default_escalation self1, self1))"

definition get_critical_errors :: "ClaudeSpawner \<Rightarrow> CriticalError list" where
  "get_critical_errors self = critical_errors self"

text \<open>
  \<open>_execute_escalation_action\<close> compares its argument with \<open>==\<close> and ends in a defensive
  \<open>else\<close>, so the argument is modelled as any Python value: a member of the enumeration, a
  plain string, or something else. \<open>EscalationAction\<close> mixes in \<open>str\<close>, so a plain string
  equals a member exactly when it is the member's value.
\<close>

datatype action_value = Member EscalationAction | Str string | Other_value

fun action_str :: "EscalationAction \<Rightarrow> string" where
  "action_str CONTINUE = ''continue''"
| "action_str STOP_PIPELINE = ''stop_pipeline''"
| "action_str RETRY = ''retry''"
| "action_str ASK_HUMAN = ''ask_human''"

fun action_eq :: "action_value \<Rightarrow> EscalationAction \<Rightarrow> bool" where
  "action_eq (Member a) m = (a = m)"
| "action_eq (Str s) m = (s = action_str m)"
| "action_eq Other_value m = False"

definition execute_escalation_action :: "action_value \<Rightarrow> TaskResult \<Rightarrow> string \<Rightarrow> bool" where
  "execute_escalation_action action task_result tid =
     (if action_eq action CONTINUE then True
      else if action_eq action STOP_PIPELINE then False
      else if action_eq action RETRY then True
      else if action_eq action ASK_HUMAN then False
      else False)"

section \<open>spawner.py: running one child process\<close>

text \<open>
  What one spawn meets outside the program, in the order the code consumes it: whether
  creating the temporary directory and the two output files raises (before the \<open>try\<close>),
  the reading \<open>int(time.time())\<close> that names the task, the clock at the start, whether
  \<open>subprocess.Popen\<close> raises and the pid it returns, what the \<open>k\<close>-th call of
  \<open>process.poll()\<close> gives (counted over the whole spawn, the polls of the clean-up
  included) and the elapsed time measured after the sleep that follows the \<open>k\<close>-th poll
  of the loop, the contents of the two files when they are read back, the clock readings
  taken for the result on the normal path and inside the exception handler, and what the
  operating system answers to the signals of the \<open>n\<close>-th call of \<open>_kill_process_tree\<close>.
\<close>

datatype poll_outcome = Still_running | Exited int | Poll_raises py_exception

text \<open>
  The calls one run of \<open>_kill_process_tree\<close> can make besides \<open>process.poll()\<close>, each
  with the exception it raises, if any: \<open>process.kill()\<close> (Windows only),
  \<open>os.getpgid(pid)\<close> followed by \<open>os.killpg(pgid, SIGTERM)\<close>, \<open>os.killpg(pgid,
  SIGKILL)\<close>, \<open>os.kill(pid, SIGTERM)\<close> and \<open>os.kill(pid, SIGKILL)\<close>.
\<close>

record signal_env =
  process_kill :: "py_exception option"
  group_term :: "py_exception option"
  group_kill :: "py_exception option"
  single_term :: "py_exception option"
  single_kill :: "py_exception option"

record spawn_env =
  setup_error :: "py_exception option"
  id_stamp :: int
  start_clock :: real
  launch_error :: "py_exception option"
  child_pid :: int
  poll :: "nat \<Rightarrow> poll_outcome"
  elapsed :: "nat \<Rightarrow> real"
  stdout_content :: string
  stderr_content :: string
  duration :: real
  clock_stamp :: real
  handler_duration :: real
  handler_stamp :: real
  on_windows :: bool
  signals :: "nat \<Rightarrow> signal_env"

text \<open>
  The polling loop \<open>while process.poll() is None: time.sleep(poll_interval); elapsed =
  ...; if elapsed > timeout: ...\<close>, shared by both spawn paths. It has no bound of its
  own: a child that never exits under a clock that never passes the timeout keeps it
  running, and \<open>poll_loop\<close> is \<open>None\<close> then. Otherwise it gives how the loop ended and
  the number of polls made.
\<close>

datatype watch_result = Process_exited int | Timed_out | Watch_raised py_exception

partial_function (option) poll_loop ::
  "(nat \<Rightarrow> poll_outcome) \<Rightarrow> (nat \<Rightarrow> real) \<Rightarrow> int \<Rightarrow> nat \<Rightarrow> (watch_result \<times> nat) option" where
  "poll_loop polls elapsed_at limit k =
     (case polls k of
        Exited c \<Rightarrow> Some (Process_exited c, Suc k)
      | Poll_raises e \<Rightarrow> Some (Watch_raised e, Suc k)
      | Still_running \<Rightarrow>
          (if elapsed_at k > real_of_int limit then Some (Timed_out, Suc k)
           else poll_loop polls elapsed_at limit (Suc k)))"

text \<open>
  \<open>_kill_process_tree(process)\<close> for a started process. \<open>swallow\<close> is a handler
  \<open>except (classes): pass\<close>; \<open>poll_then\<close> is \<open>if process.poll() is None: kill\<close>. The
  value is the exception that leaves the function, if any, and the number of polls made
  so far. On POSIX an exception of the group signals or of the poll between them is
  caught when it is a \<open>ProcessLookupError\<close>, \<open>PermissionError\<close> or \<open>OSError\<close>, and the
  single process is signalled instead; any other exception leaves the function.
\<close>

definition swallow :: "string list \<Rightarrow> py_exception option \<Rightarrow> py_exception option" where
  "swallow classes raised =
     (case raised of
        Some e \<Rightarrow> (if isinstance e classes then None else Some e)
      | None \<Rightarrow> None)"

definition poll_then :: "poll_outcome \<Rightarrow> py_exception option \<Rightarrow> py_exception option" where
  "poll_then polled kill =
     (case polled of
        Poll_raises e \<Rightarrow> Some e
      | Still_running \<Rightarrow> kill
      | Exited c \<Rightarrow> None)"

definition kill_single :: "spawn_env \<Rightarrow> signal_env \<Rightarrow> nat \<Rightarrow> py_exception option \<times> nat" where
  "kill_single env sg i =
     (case single_term sg of
        Some e \<Rightarrow> (swallow [''ProcessLookupError'', ''OSError''] (Some e), i)
      | None \<Rightarrow>
          (swallow [''ProcessLookupError'', ''OSError'']
             (poll_then (poll env i) (single_kill sg)), Suc i))"

definition kill_process_tree :: "spawn_env \<Rightarrow> nat \<Rightarrow> nat \<Rightarrow> py_exception option \<times> nat" where
  "kill_process_tree env n i =
     (let sg = signals env n in
      if on_windows env then
        (swallow [''ProcessLookupError'', ''OSError''] (process_kill sg), i)
      else
        (case group_term sg of
           Some e \<Rightarrow>
             (if isinstance e [''ProcessLookupError'', ''PermissionError'', ''OSError'']
              then kill_single env sg i
              else (Some e, i))
         | None \<Rightarrow>
             (case poll_then (poll env i) (swallow [''ProcessLookupError''] (group_kill sg)) of
                None \<Rightarrow> (None, Suc i)
              | Some e \<Rightarrow>
                  (if isinstance e [''ProcessLookupError'', ''PermissionError'', ''OSError'']
                   then kill_single env sg (Suc i)
                   else (Some e, Suc i)))))"

text \<open>
  What the handlers need to know of the \<open>try\<close> they guard: whether the process was
  started (\<open>process\<close> is not \<open>None\<close>), how many polls were made and how many times
  \<open>_kill_process_tree\<close> has run on the process.
\<close>

record handles =
  started :: bool
  polls_done :: nat
  kills_done :: nat

definition kill_if_started :: "spawn_env \<Rightarrow> handles \<Rightarrow> py_exception option" where
  "kill_if_started env hs =
     (if started hs then fst (kill_process_tree env (kills_done hs) (polls_done hs)) else None)"

text \<open>\<open>timeout or self.timeout_seconds\<close>: \<open>None\<close> and \<open>0\<close> both select the default.\<close>

definition actual_timeout :: "ClaudeSpawner \<Rightarrow> int option \<Rightarrow> int" where
  "actual_timeout self t =
     (case t of Some n \<Rightarrow> (if n \<noteq> 0 then n else timeout_seconds self)
              | None \<Rightarrow> timeout_seconds self)"

definition task_label :: "string option \<Rightarrow> string" where
  "task_label stage =
     (case stage of Some n \<Rightarrow> (if n \<noteq> [] then n else ''task'') | None \<Rightarrow> ''task'')"

definition blocking_task_id :: "string \<Rightarrow> spawn_env \<Rightarrow> string" where
  "blocking_task_id label env = label @ ''_'' @ str_int (id_stamp env)"

text \<open>
  How the body of the \<open>try\<close> in \<open>spawn_blocking\<close> ends once the child was killed after
  a timeout, or has exited. Each path gives what the body does last: \<open>Inr\<close> a returned
  result, \<open>Inl\<close> an exception raised inside the \<open>try\<close>.
\<close>

definition timeout_error :: "int \<Rightarrow> string \<Rightarrow> string \<Rightarrow> spawn_env \<Rightarrow> CriticalError" where
  "timeout_error limit tid label env =
     \<lparr>message = ''Task timed out after '' @ str_int limit @ ''s'',
      severity = FATAL,
      task_id = tid,
      stage_name = label,
      error_details =
        Some (if stderr_content env \<noteq> []
              then ''stdout: '' @ take 500 (stdout_content env) @ '', stderr: ''
                   @ take 500 (stderr_content env)
              else take 500 (stdout_content env)),
      suggested_action = Some ''Increase timeout or optimize task complexity'',
      timestamp = clock_stamp env\<rparr>"

definition timeout_result :: "int \<Rightarrow> string \<Rightarrow> string \<Rightarrow> spawn_env \<Rightarrow> TaskResult" where
  "timeout_result limit tid label env =
     \<lparr>success = False,
      output_text = stdout_content env,
      error = Some (''Task timed out after '' @ str_int limit @ ''s. stderr: ''
                    @ stderr_content env),
      exit_code = - 1,
      duration_seconds = duration env,
      status = TIMEOUT,
      error_severity = Some FATAL,
      critical_error = Some (timeout_error limit tid label env)\<rparr>"

definition timeout_path ::
  "ClaudeSpawner \<Rightarrow> spawn_env \<Rightarrow> int \<Rightarrow> string \<Rightarrow> string
     \<Rightarrow> (py_exception + TaskResult) \<times> ClaudeSpawner" where
  "timeout_path self env limit tid label =
     (let (escalation_action, self1) =
            handle_critical_error self (timeout_error limit tid label env);
          res = timeout_result limit tid label env;
          should_continue = execute_escalation_action (Member escalation_action) res tid
      in if \<not> should_continue
         then (Inl (RuntimeError (''Pipeline stopped due to timeout in '' @ label)), self1)
         else (Inr res, self1))"

definition failure_error ::
  "int \<Rightarrow> ErrorSeverity \<Rightarrow> string \<Rightarrow> string \<Rightarrow> spawn_env \<Rightarrow> CriticalError" where
  "failure_error code sev tid label env =
     \<lparr>message = ''Task failed with exit code '' @ str_int code,
      severity = sev,
      task_id = tid,
      stage_name = label,
      error_details =
        (if stderr_content env \<noteq> [] then Some (take 1000 (stderr_content env)) else None),
      suggested_action = Some ''Review error logs and retry or fix the issue'',
      timestamp = clock_stamp env\<rparr>"

definition completion_path ::
  "ClaudeSpawner \<Rightarrow> spawn_env \<Rightarrow> int \<Rightarrow> string \<Rightarrow> string
     \<Rightarrow> (py_exception + TaskResult) \<times> ClaudeSpawner" where
  "completion_path self env code tid label =
     (let err_text = (if stderr_content env \<noteq> [] then Some (stderr_content env) else None) in
      if code \<noteq> 0 then
        (let sev = classify_error_severity code (stderr_content env) FAILED in
         if sev \<in> set [CRITICAL, FATAL] then
           (let cerr = failure_error code sev tid label env;
                (escalation_action, self1) = handle_critical_error self cerr;
                res = \<lparr>success = False, output_text = stdout_content env, error = err_text,
                       exit_code = code, duration_seconds = duration env,
                       status = (if sev = CRITICAL then CRITICAL_ERROR else FAILED),
                       error_severity = Some sev, critical_error = Some cerr\<rparr>;
                should_continue = execute_escalation_action (Member escalation_action) res tid
            in if \<not> should_continue
               then (Inl (RuntimeError (''Pipeline stopped due to critical error in '' @ label
                                        @ '': '' @ message cerr)), self1)
               else (Inr res, self1))
         else
           (Inr \<lparr>success = (code = 0), output_text = stdout_content env, error = err_text,
                 exit_code = code, duration_seconds = duration env, status = COMPLETED,
                 error_severity = Some sev, critical_error = None\<rparr>, self))
      else
        (Inr \<lparr>success = (code = 0), output_text = stdout_content env, error = err_text,
              exit_code = code, duration_seconds = duration env, status = COMPLETED,
              error_severity = None, critical_error = None\<rparr>, self))"

text \<open>
  The branch \<open>if elapsed > actual_timeout\<close> of the loop: the child is killed first, inside
  the \<open>try\<close>, and only then is the error of the timeout built and escalated.
\<close>

definition timeout_branch ::
  "ClaudeSpawner \<Rightarrow> spawn_env \<Rightarrow> int \<Rightarrow> string \<Rightarrow> string \<Rightarrow> nat
     \<Rightarrow> (py_exception + TaskResult) \<times> ClaudeSpawner \<times> handles" where
  "timeout_branch self env limit tid label i =
     (case kill_process_tree env 0 i of
        (Some e, j) \<Rightarrow> (Inl e, self, \<lparr>started = True, polls_done = j, kills_done = 1\<rparr>)
      | (None, j) \<Rightarrow>
          (case timeout_path self env limit tid label of
             (out, self1) \<Rightarrow> (out, self1, \<lparr>started = True, polls_done = j, kills_done = 1\<rparr>)))"

definition try_body ::
  "ClaudeSpawner \<Rightarrow> spawn_env \<Rightarrow> int \<Rightarrow> string \<Rightarrow> string
     \<Rightarrow> ((py_exception + TaskResult) \<times> ClaudeSpawner \<times> handles) option" where
  "try_body self env limit tid label =
     (case launch_error env of
        Some e \<Rightarrow> Some (Inl e, self, \<lparr>started = False, polls_done = 0, kills_done = 0\<rparr>)
      | None \<Rightarrow>
          (case poll_loop (poll env) (elapsed env) limit 0 of
             None \<Rightarrow> None
           | Some (Watch_raised e, i) \<Rightarrow>
               Some (Inl e, self, \<lparr>started = True, polls_done = i, kills_done = 0\<rparr>)
           | Some (Timed_out, i) \<Rightarrow> Some (timeout_branch self env limit tid label i)
           | Some (Process_exited c, i) \<Rightarrow>
               (case completion_path self env c tid label of
                  (out, self1) \<Rightarrow>
                    Some (out, self1, \<lparr>started = True, polls_done = i, kills_done = 0\<rparr>))))"

text \<open>
  The handler \<open>except Exception as e\<close> of \<open>spawn_blocking\<close>. It kills the process tree
  first; what that raises leaves the function with nothing recorded. Then it builds the
  error, escalates it, and returns the result or raises the abort; it raises from inside
  the handler, so its \<open>RuntimeError\<close> leaves the function.
\<close>

definition exception_error :: "py_exception \<Rightarrow> string \<Rightarrow> string \<Rightarrow> spawn_env \<Rightarrow> CriticalError" where
  "exception_error e tid label env =
     \<lparr>message = ''Exception during task execution: '' @ exc_class e,
      severity = CRITICAL,
      task_id = tid,
      stage_name = label,
      error_details = Some (exc_msg e),
      suggested_action = Some ''Review logs and fix the underlying issue'',
      timestamp = handler_stamp env\<rparr>"

definition exception_result :: "py_exception \<Rightarrow> string \<Rightarrow> string \<Rightarrow> spawn_env \<Rightarrow> TaskResult" where
  "exception_result e tid label env =
     \<lparr>success = False, output_text = '''', error = Some (exc_msg e), exit_code = - 1,
      duration_seconds = handler_duration env, status = CRITICAL_ERROR,
      error_severity = Some CRITICAL,
      critical_error = Some (exception_error e tid label env)\<rparr>"

definition escalate_exception ::
  "ClaudeSpawner \<Rightarrow> spawn_env \<Rightarrow> string \<Rightarrow> string \<Rightarrow> py_exception
     \<Rightarrow> (py_exception + TaskResult) \<times> ClaudeSpawner" where
  "escalate_exception self env tid label e =
     (let (escalation_action, self1) =
            handle_critical_error self (exception_error e tid label env);
          res = exception_result e tid label env;
          should_continue = execute_escalation_action (Member escalation_action) res tid
      in if \<not> should_continue
         then (Inl (RuntimeError (''Pipeline stopped due to exception in '' @ label @ '': ''
                                  @ exc_msg e)), self1)
         else (Inr res, self1))"

definition except_handler ::
  "ClaudeSpawner \<Rightarrow> spawn_env \<Rightarrow> handles \<Rightarrow> string \<Rightarrow> string \<Rightarrow> py_exception
     \<Rightarrow> (py_exception + TaskResult) \<times> ClaudeSpawner" where
  "except_handler self env hs tid label e =
     (case kill_if_started env hs of
        Some e' \<Rightarrow> (Inl e', self)
      | None \<Rightarrow> escalate_exception self env tid label e)"

text \<open>
  \<open>spawn_blocking(prompt, timeout, stage_name, show_output)\<close>. The prompt only builds the
  command line and \<open>show_output\<close> only switches the console tail, so neither is an
  argument here. The value is \<open>None\<close> when the call never ends, otherwise what the call
  does last (\<open>Inl\<close> the exception that leaves it, \<open>Inr\<close> the returned result) and the
  spawner afterwards.
\<close>

definition spawn_blocking ::
  "ClaudeSpawner \<Rightarrow> int option \<Rightarrow> string option \<Rightarrow> spawn_env
     \<Rightarrow> ((py_exception + TaskResult) \<times> ClaudeSpawner) option" where
  "spawn_blocking self t stage env =
     (let limit = actual_timeout self t;
          label = task_label stage;
          tid = blocking_task_id label env
      in case setup_error env of
           Some e \<Rightarrow> Some (Inl e, self)
         | None \<Rightarrow>
             (case try_body self env limit tid label of
                None \<Rightarrow> None
              | Some (Inl e, self1, hs) \<Rightarrow> Some (except_handler self1 env hs tid label e)
              | Some (Inr res, self1, hs) \<Rightarrow> Some (Inr res, self1)))"

text \<open>
  \<open>_execute_task(task, prompt, on_complete, show_output)\<close>, the body of the background
  thread. It returns nothing and writes the task; the value is the exception that leaves
  the thread, if any (from the set-up before the \<open>try\<close>, or from the clean-up inside the
  handler), the task and the spawner afterwards, or \<open>None\<close> when the polling never ends.
  The completion callback runs last with its exceptions swallowed and can change neither
  the task nor the spawner, so it is not an argument.
\<close>

definition temp_path :: "ClaudeSpawner \<Rightarrow> string \<Rightarrow> string \<Rightarrow> string" where
  "temp_path self tid ext = project_root self @ ''/.orchestrate-temp/'' @ tid @ ext"

text \<open>
  The section \<open># Build result\<close>. Its test \<open>task.status == TaskStatus.TIMEOUT\<close> holds
  exactly for the runs that left the loop through the timeout branch, the only place
  that sets this status; the other runs left it with the child's return code.
\<close>

definition background_timeout :: "BackgroundTask \<Rightarrow> spawn_env \<Rightarrow> BackgroundTask" where
  "background_timeout task env =
     task\<lparr>bt_status := TIMEOUT,
          result := Some \<lparr>success = False, output_text = stdout_content env,
                          error = Some (''Task timed out after '' @ str_int (timeout task)
                                        @ ''s. stderr: '' @ stderr_content env),
                          exit_code = - 1, duration_seconds = duration env,
                          status = TIMEOUT, error_severity = None,
                          critical_error = None\<rparr>\<rparr>"

definition background_exit :: "BackgroundTask \<Rightarrow> spawn_env \<Rightarrow> int \<Rightarrow> BackgroundTask" where
  "background_exit task env returncode =
     (let st = (if returncode = 0 then COMPLETED else FAILED) in
      task\<lparr>bt_status := st,
           result := Some \<lparr>success = (returncode = 0), output_text = stdout_content env,
                           error = (if stderr_content env \<noteq> []
                                    then Some (stderr_content env) else None),
                           exit_code = returncode, duration_seconds = duration env,
                           status = st, error_severity = None,
                           critical_error = None\<rparr>\<rparr>)"

text \<open>
  The handler \<open>except Exception as e\<close> of \<open>_execute_task\<close>: the process tree is killed
  first, and what that raises leaves the thread with the task as it was; otherwise the
  task is marked \<open>FAILED\<close> and gets its result.
\<close>

definition background_handler ::
  "ClaudeSpawner \<Rightarrow> BackgroundTask \<Rightarrow> spawn_env \<Rightarrow> handles \<Rightarrow> py_exception
     \<Rightarrow> py_exception option \<times> BackgroundTask \<times> ClaudeSpawner" where
  "background_handler self task env hs e =
     (case kill_if_started env hs of
        Some e' \<Rightarrow> (Some e', task, self)
      | None \<Rightarrow>
          (None,
           task\<lparr>bt_status := FAILED,
                result := Some \<lparr>success = False, output_text = '''', error = Some (exc_msg e),
                                exit_code = - 1, duration_seconds = handler_duration env,
                                status = FAILED, error_severity = None,
                                critical_error = None\<rparr>\<rparr>,
           self))"

definition execute_task ::
  "ClaudeSpawner \<Rightarrow> BackgroundTask \<Rightarrow> spawn_env
     \<Rightarrow> (py_exception option \<times> BackgroundTask \<times> ClaudeSpawner) option" where
  "execute_task self task env =
     (let task1 = task\<lparr>start_time := start_clock env, bt_status := RUNNING\<rparr> in
      case setup_error env of
        Some e \<Rightarrow> Some (Some e, task1, self)
      | None \<Rightarrow>
          (let task2 = task1\<lparr>stdout_file := Some (temp_path self (bt_task_id task1) ''.stdout''),
                              stderr_file := Some (temp_path self (bt_task_id task1) ''.stderr'')\<rparr>
           in case launch_error env of
                Some e \<Rightarrow>
                  Some (background_handler self task2 env
                          \<lparr>started = False, polls_done = 0, kills_done = 0\<rparr> e)
              | None \<Rightarrow>
                  (let task3 = task2\<lparr>process := Some (child_pid env)\<rparr> in
                   case poll_loop (poll env) (elapsed env) (timeout task3) 0 of
                     None \<Rightarrow> None
                   | Some (Watch_raised e, i) \<Rightarrow>
                       Some (background_handler self task3 env
                               \<lparr>started = True, polls_done = i, kills_done = 0\<rparr> e)
                   | Some (Timed_out, i) \<Rightarrow>
                       (case kill_process_tree env 0 i of
                          (Some e, j) \<Rightarrow>
                            Some (background_handler self task3 env
                                    \<lparr>started = True, polls_done = j, kills_done = 1\<rparr> e)
                        | (None, j) \<Rightarrow>
                            Some (None, background_timeout task3 env, self))
                   | Some (Process_exited c, i) \<Rightarrow>
                       Some (None, background_exit task3 env c, self))))"

text \<open>
  How a run of the polling loop goes, read off the environment: the child \<open>survives\<close>
  the first \<open>k\<close> polls when each of them finds it running with the elapsed time still
  within the limit; it \<open>outlives\<close> the limit at poll \<open>k\<close> when it is found running there
  with the elapsed time above the limit; the monitoring \<open>raises_at\<close> poll \<open>k\<close> when that
  call of \<open>process.poll()\<close> raises.
\<close>

definition survives :: "spawn_env \<Rightarrow> int \<Rightarrow> nat \<Rightarrow> bool" where
  "survives env limit k =
     (\<forall>j \<in> {..<k}. poll env j = Still_running \<and> elapsed env j \<le> real_of_int limit)"

definition outlives :: "spawn_env \<Rightarrow> int \<Rightarrow> nat \<Rightarrow> bool" where
  "outlives env limit k =
     (survives env limit k \<and> poll env k = Still_running \<and> elapsed env k > real_of_int limit)"

definition raises_at :: "spawn_env \<Rightarrow> int \<Rightarrow> nat \<Rightarrow> py_exception \<Rightarrow> bool" where
  "raises_at env limit k e = (survives env limit k \<and> poll env k = Poll_raises e)"

text \<open>
  The clean-up \<open>_kill_process_tree\<close>, run for the \<open>n\<close>-th time after \<open>i\<close> polls, is
  quiet when no exception leaves it.
\<close>

definition kill_is_quiet :: "spawn_env \<Rightarrow> nat \<Rightarrow> nat \<Rightarrow> bool" where
  "kill_is_quiet env n i = (fst (kill_process_tree env n i) = None)"

text \<open>
  Whether the escalation policy, run on an error (decision, then execution of the decided
  action), lets the call return its result.
\<close>

definition proceeds :: "ClaudeSpawner \<Rightarrow> CriticalError \<Rightarrow> TaskResult \<Rightarrow> string \<Rightarrow> bool" where
  "proceeds self err res tid =
     execute_escalation_action (Member (fst (handle_critical_error self err))) res tid"

text \<open>The entries of a history that have severity \<open>FATAL\<close>.\<close>

definition fatal_errors :: "CriticalError list \<Rightarrow> CriticalError list" where
  "fatal_errors history = filter (\<lambda>e. severity e = FATAL) history"

section \<open>health_checker.py\<close>

datatype HealthStatus =
  HEALTHY | HEALTH_TIMEOUT | HUNG | HIGH_MEMORY | HIGH_CPU | NOT_FOUND | TERMINATED

record HealthReport =
  pid :: int
  hr_status :: HealthStatus
  cpu_percent :: real
  memory_mb :: real
  runtime_seconds :: real
  last_activity_seconds :: real
  hr_message :: string

record HealthChecker =
  activity_timeout :: int
  use_cpu_detection :: bool
  memory_limit_mb :: int
  cpu_threshold :: real
  last_activity :: "int \<rightharpoonup> real"
  hc_start_time :: "int \<rightharpoonup> real"

definition register_process :: "HealthChecker \<Rightarrow> real \<Rightarrow> int \<Rightarrow> HealthChecker" where
  "register_process self now p =
     self\<lparr>last_activity := (last_activity self)(p \<mapsto> now),
          hc_start_time := (hc_start_time self)(p \<mapsto> now)\<rparr>"

definition record_activity :: "HealthChecker \<Rightarrow> real \<Rightarrow> int \<Rightarrow> HealthChecker" where
  "record_activity self now p = self\<lparr>last_activity := (last_activity self)(p \<mapsto> now)\<rparr>"

text \<open>
  What \<open>psutil\<close> answers for the pid: the exception of the first call that raises
  (\<open>psutil.Process(pid)\<close>, \<open>cpu_percent\<close>, \<open>memory_info\<close>), or the three values read.
\<close>

record process_sample =
  sample_cpu_percent :: real
  sample_rss :: nat
  sample_running :: bool

text \<open>
  The body of the \<open>try\<close> in \<open>check_health(pid)\<close>: \<open>Inl\<close> an exception raised inside it,
  \<open>Inr\<close> the report it returns. \<open>clock k\<close> is the \<open>k\<close>-th reading of \<open>time.time()\<close> inside
  the call (the default argument of the first \<open>get\<close> is evaluated whether or not the pid
  is registered), and \<open>fmt d x\<close> is the text of \<open>f"{x:.df}"\<close>, a parameter since only the
  messages use it. The three branches that report a problem log it with
  \<open>logger.warning\<close> before they build their report.
\<close>

definition check_health_body ::
  "HealthChecker \<Rightarrow> (nat \<Rightarrow> real \<Rightarrow> string) \<Rightarrow> (py_exception + process_sample)
     \<Rightarrow> (nat \<Rightarrow> real) \<Rightarrow> int \<Rightarrow> py_exception + HealthReport" where
  "check_health_body self fmt probe clock p =
     (case probe of
        Inl e \<Rightarrow> Inl e
      | Inr smp \<Rightarrow>
          (let cpu = sample_cpu_percent smp;
               mem = real (sample_rss smp) / (1024 * 1024);
               started = (case hc_start_time self p of Some t \<Rightarrow> t | None \<Rightarrow> clock 0);
               runtime = clock 1 - started;
               active = (case last_activity self p of Some t \<Rightarrow> t | None \<Rightarrow> started);
               idle = clock 2 - active
           in if \<not> sample_running smp then
                (case logger_warning of
                   Some err \<Rightarrow> Inl err
                 | None \<Rightarrow>
                     Inr \<lparr>pid = p, hr_status = TERMINATED, cpu_percent = 0, memory_mb = mem,
                          runtime_seconds = runtime, last_activity_seconds = idle,
                          hr_message = ''Process has terminated''\<rparr>)
              else if mem > real_of_int (memory_limit_mb self) then
                (case logger_warning of
                   Some err \<Rightarrow> Inl err
                 | None \<Rightarrow>
                     Inr \<lparr>pid = p, hr_status = HIGH_MEMORY, cpu_percent = cpu, memory_mb = mem,
                          runtime_seconds = runtime, last_activity_seconds = idle,
                          hr_message = ''Memory usage '' @ fmt 0 mem @ ''MB exceeds limit ''
                                       @ str_int (memory_limit_mb self) @ ''MB''\<rparr>)
              else if idle > real_of_int (activity_timeout self) then
                (if use_cpu_detection self \<and> cpu \<ge> cpu_threshold self then
                   Inr \<lparr>pid = p, hr_status = HEALTHY, cpu_percent = cpu, memory_mb = mem,
                        runtime_seconds = runtime, last_activity_seconds = idle,
                        hr_message = ''Active (CPU: '' @ fmt 1 cpu @ ''%, thinking/computing)''\<rparr>
                 else
                   (case logger_warning of
                      Some err \<Rightarrow> Inl err
                    | None \<Rightarrow>
                        Inr \<lparr>pid = p, hr_status = HUNG, cpu_percent = cpu, memory_mb = mem,
                             runtime_seconds = runtime, last_activity_seconds = idle,
                             hr_message = ''No activity for '' @ fmt 0 idle @ ''s (timeout: ''
                                          @ str_int (activity_timeout self) @ ''s)''\<rparr>))
              else
                Inr \<lparr>pid = p, hr_status = HEALTHY, cpu_percent = cpu, memory_mb = mem,
                     runtime_seconds = runtime, last_activity_seconds = idle,
                     hr_message = ''Process is healthy''\<rparr>))"

text \<open>
  \<open>check_health(pid)\<close> with its two handlers. The handler of \<open>psutil.NoSuchProcess\<close>
  starts with \<open>logger.warning\<close>, and what a handler raises leaves the function; the
  handler of every other exception logs with \<open>logger.error\<close> and returns its report.
\<close>

definition check_health ::
  "HealthChecker \<Rightarrow> (nat \<Rightarrow> real \<Rightarrow> string) \<Rightarrow> (py_exception + process_sample)
     \<Rightarrow> (nat \<Rightarrow> real) \<Rightarrow> int \<Rightarrow> py_exception + HealthReport" where
  "check_health self fmt probe clock p =
     (case check_health_body self fmt probe clock p of
        Inr report \<Rightarrow> Inr report
      | Inl e \<Rightarrow>
          if isinstance e [''NoSuchProcess''] then
            (case logger_warning of
               Some err \<Rightarrow> Inl err
             | None \<Rightarrow>
                 Inr \<lparr>pid = p, hr_status = NOT_FOUND, cpu_percent = 0, memory_mb = 0,
                      runtime_seconds = 0, last_activity_seconds = 0,
                      hr_message = ''Process not found''\<rparr>)
          else
            Inr \<lparr>pid = p, hr_status = NOT_FOUND, cpu_percent = 0, memory_mb = 0,
                 runtime_seconds = 0, last_activity_seconds = 0,
                 hr_message = ''Error checking health: '' @ exc_msg e\<rparr>)"
section \<open>retry_handler.py\<close>

datatype BackoffStrategy = CONSTANT | LINEAR | EXPONENTIAL

text \<open>
  \<open>RetryConfig\<close>. \<open>retryable_exceptions\<close> is the tuple of exception classes, by name. The
  hook \<open>on_retry\<close> gives the exception it raises, if any.
\<close>

record RetryConfig =
  max_attempts :: int
  base_delay_seconds :: real
  max_delay_seconds :: real
  backoff_strategy :: BackoffStrategy
  backoff_multiplier :: real
  retryable_exceptions :: "string list"
  on_retry :: "(int \<Rightarrow> py_exception \<Rightarrow> py_exception option) option"

text \<open>
  Float arithmetic that can raise. Floats are reals here, so rounding is not modelled,
  but leaving the float range is: \<open>float_max\<close> is the largest finite double, the
  conversion of a Python int beyond it raises \<open>OverflowError\<close>, and so does a power
  \<open>x ** n\<close> whose value lies beyond it. A negative exponent gives the reciprocal and
  raises \<open>ZeroDivisionError\<close> for \<open>x = 0\<close>.
\<close>

definition float_max :: real where
  "float_max = (2 ^ 53 - 1) * 2 ^ 971"

definition float_of_int :: "int \<Rightarrow> py_exception + real" where
  "float_of_int n =
     (if \<bar>real_of_int n\<bar> > float_max
      then Inl (OverflowError ''int too large to convert to float'')
      else Inr (real_of_int n))"

definition float_pow :: "real \<Rightarrow> int \<Rightarrow> py_exception + real" where
  "float_pow x n =
     (case float_of_int n of
        Inl e \<Rightarrow> Inl e
      | Inr y \<Rightarrow>
          if 0 \<le> n then
            (if \<bar>x ^ nat n\<bar> > float_max
             then Inl (OverflowError ''(34, 'Numerical result out of range')'')
             else Inr (x ^ nat n))
          else if x = 0 then Inl (ZeroDivisionError ''0.0 cannot be raised to a negative power'')
          else if \<bar>1 / x ^ nat (- n)\<bar> > float_max
            then Inl (OverflowError ''(34, 'Numerical result out of range')'')
          else Inr (1 / x ^ nat (- n)))"

text \<open>
  \<open>_calculate_delay(attempt)\<close>. The strategy is a member of the enumeration, so the
  closing \<open>else\<close> of the source (the base delay for any other value) has no case here.
  The product of a float and an int converts the int first.
\<close>

definition calculate_delay :: "RetryConfig \<Rightarrow> int \<Rightarrow> py_exception + real" where
  "calculate_delay cfg attempt =
     (case
        (case backoff_strategy cfg of
           CONSTANT \<Rightarrow> Inr (base_delay_seconds cfg)
         | LINEAR \<Rightarrow>
             (case float_of_int attempt of
                Inl e \<Rightarrow> Inl e
              | Inr a \<Rightarrow> Inr (base_delay_seconds cfg * a))
         | EXPONENTIAL \<Rightarrow>
             (case float_pow (backoff_multiplier cfg) (attempt - 1) of
                Inl e \<Rightarrow> Inl e
              | Inr m \<Rightarrow> Inr (base_delay_seconds cfg * m)))
      of Inl e \<Rightarrow> Inl e
       | Inr delay \<Rightarrow> Inr (min delay (max_delay_seconds cfg)))"


text \<open>
  The operation handed to \<open>retry\<close> is a named Python function (the log lines read
  \<open>func.__name__\<close>); \<open>op_run op k\<close> is what its invocation number \<open>k\<close> (from 0) does:
  raise or return. A run of \<open>retry\<close> leaves the statistics of the handler and a trace of
  what it did outside itself: the invocations with their attempt number, the calls of the
  hook, the sleeps.
\<close>

record 'a operation =
  op_name :: string
  op_run :: "nat \<Rightarrow> py_exception + 'a"

record retry_stat =
  st_function :: string
  st_attempts :: int
  st_success :: bool
  st_error :: "string option"

datatype retry_event = Invoked int | Notified int | Slept real

record retry_state =
  retry_stats :: "retry_stat list"
  trace :: "retry_event list"

text \<open>The statements after the loop: \<open>if last_exception: raise last_exception\<close>.\<close>

definition after_loop ::
  "py_exception option \<Rightarrow> retry_state \<Rightarrow> (py_exception + 'a option) \<times> retry_state" where
  "after_loop last_exception st =
     (case last_exception of Some e \<Rightarrow> (Inl e, st) | None \<Rightarrow> (Inr None, st))"

text \<open>
  \<open>if self.config.on_retry: try: self.config.on_retry(attempt, e) except Exception: pass\<close>:
  the call is recorded, whatever the hook raises is swallowed.
\<close>

definition notified :: "RetryConfig \<Rightarrow> int \<Rightarrow> retry_state \<Rightarrow> retry_state" where
  "notified cfg n st =
     (case on_retry cfg of Some hook \<Rightarrow> st\<lparr>trace := trace st @ [Notified n]\<rparr> | None \<Rightarrow> st)"

text \<open>
  The loop of \<open>retry\<close>, entered with the attempt counter before its increment. A
  retryable failure that is not the last attempt is logged with \<open>logger.warning\<close>
  before the hook, the delay and the sleep.
\<close>

function retry_loop ::
  "RetryConfig \<Rightarrow> 'a operation \<Rightarrow> int \<Rightarrow> py_exception option \<Rightarrow> retry_state
     \<Rightarrow> (py_exception + 'a option) \<times> retry_state" where
  "retry_loop cfg op attempt0 last_exception st =
     (if attempt0 < max_attempts cfg then
        (let attempt = attempt0 + 1;
             st1 = st\<lparr>trace := trace st @ [Invoked attempt]\<rparr>
         in case op_run op (nat attempt0) of
              Inr res \<Rightarrow>
                (Inr (Some res),
                 if attempt > 1
                 then st1\<lparr>retry_stats := retry_stats st1 @
                        [\<lparr>st_function = op_name op, st_attempts = attempt, st_success = True,
                          st_error = None\<rparr>]\<rparr>
                 else st1)
            | Inl e \<Rightarrow>
                if isinstance e (retryable_exceptions cfg) then
                  (if attempt \<ge> max_attempts cfg then
                     after_loop (Some e)
                       (st1\<lparr>retry_stats := retry_stats st1 @
                          [\<lparr>st_function = op_name op, st_attempts = attempt,
                            st_success = False, st_error = Some (exc_msg e)\<rparr>]\<rparr>)
                   else
                     (case logger_warning of
                        Some err \<Rightarrow> (Inl err, st1)
                      | None \<Rightarrow>
                          (let st2 = notified cfg attempt st1
                           in case calculate_delay cfg attempt of
                                Inl err \<Rightarrow> (Inl err, st2)
                              | Inr delay \<Rightarrow>
                                  (case sleep delay of
                                     Some err \<Rightarrow> (Inl err, st2)
                                   | None \<Rightarrow>
                                       retry_loop cfg op attempt (Some e)
                                         (st2\<lparr>trace := trace st2 @ [Slept delay]\<rparr>)))))
                else (Inl e, st1))
      else after_loop last_exception st)"
  by pat_completeness auto
termination
  by (relation "measure (\<lambda>(cfg, op, attempt0, last_exception, st). nat (max_attempts cfg - attempt0))")
     auto

declare retry_loop.simps [simp del]

text \<open>
  \<open>RetryHandler.retry(func)\<close>: the outcome is \<open>Inl\<close> the exception that leaves the call,
  \<open>Inr (Some v)\<close> the value returned by the operation, or \<open>Inr None\<close> when the call falls
  off its end and returns \<open>None\<close>.
\<close>

definition retry ::
  "RetryConfig \<Rightarrow> retry_stat list \<Rightarrow> 'a operation \<Rightarrow> (py_exception + 'a option) \<times> retry_state" where
  "retry cfg stats op = retry_loop cfg op 0 None \<lparr>retry_stats = stats, trace = []\<rparr>"

definition invocations :: "retry_state \<Rightarrow> nat" where
  "invocations st = length (filter (\<lambda>ev. case ev of Invoked n \<Rightarrow> True | _ \<Rightarrow> False) (trace st))"


section \<open>Concrete inputs\<close>

text \<open>A background task whose status is \<open>CRITICAL_ERROR\<close>.\<close>

definition stuck_task :: BackgroundTask where
  "stuck_task =
     \<lparr>bt_task_id = ''dev_1'', bt_stage_name = ''dev'', process = Some 4242,
      bt_status = CRITICAL_ERROR, start_time = 100, timeout = 600, result = None,
      stdout_file = None, stderr_file = None\<rparr>"

text \<open>An operating system that delivers every signal without complaint.\<close>

definition quiet_signals :: signal_env where
  "quiet_signals =
     \<lparr>process_kill = None, group_term = None, group_kill = None, single_term = None,
      single_kill = None\<rparr>"

text \<open>
  A child that is seen running at the first poll, after half a second, and has exited
  with code 0 at the second; nothing raises.
\<close>

definition quick_exit_env :: spawn_env where
  "quick_exit_env =
     \<lparr>setup_error = None, id_stamp = 1700000000, start_clock = 1700000000,
      launch_error = None, child_pid = 4242,
      poll = (\<lambda>k. if k = 0 then Still_running else Exited 0),
      elapsed = (\<lambda>k. real (Suc k) / 2),
      stdout_content = ''OK'', stderr_content = '''',
      duration = 1, clock_stamp = 1700000001,
      handler_duration = 1, handler_stamp = 1700000001,
      on_windows = False, signals = (\<lambda>n. quiet_signals)\<rparr>"

text \<open>
  A spawner whose decision callback always raises and whose default action is
  \<open>CONTINUE\<close>; the error record of a failed launch.
\<close>

definition failing_handler_spawner :: ClaudeSpawner where
  "failing_handler_spawner =
     \<lparr>project_root = ''/repo'', timeout_seconds = 600,
      on_critical_error = Some (\<lambda>history err. Inl (RuntimeError ''handler broke'')),
      default_escalation = CONTINUE, critical_errors = []\<rparr>"

definition FileNotFoundError :: py_exception where
  "FileNotFoundError =
     \<lparr>exc_class = ''FileNotFoundError'', exc_bases = [''OSError''],
      exc_msg = ''claude: command not found''\<rparr>"

definition launch_failure :: CriticalError where
  "launch_failure = exception_error FileNotFoundError ''dev_1700000000'' ''dev'' quick_exit_env"

text \<open>
  A health checker with the default settings that registered pid 4242 at time 0, and two
  samples of that process, 25 minutes later, that differ in the CPU reading only.
\<close>

definition default_checker :: HealthChecker where
  "default_checker =
     \<lparr>activity_timeout = 1200, use_cpu_detection = True, memory_limit_mb = 4096,
      cpu_threshold = 1, last_activity = [4242 \<mapsto> 0], hc_start_time = [4242 \<mapsto> 0]\<rparr>"

definition idle_sample :: process_sample where
  "idle_sample = \<lparr>sample_cpu_percent = 0, sample_rss = 104857600, sample_running = True\<rparr>"

definition busy_sample :: process_sample where
  "busy_sample = idle_sample\<lparr>sample_cpu_percent := 35\<rparr>"

text \<open>
  The default retry configuration and an operation whose every invocation raises
  \<open>ConnectionError\<close>.
\<close>

definition default_config :: RetryConfig where
  "default_config =
     \<lparr>max_attempts = 3, base_delay_seconds = 1, max_delay_seconds = 60,
      backoff_strategy = EXPONENTIAL, backoff_multiplier = 2,
      retryable_exceptions = [''Exception''], on_retry = None\<rparr>"

definition ConnectionError :: py_exception where
  "ConnectionError =
     \<lparr>exc_class = ''ConnectionError'', exc_bases = [''OSError''], exc_msg = ''refused''\<rparr>"

definition always_refused :: "nat operation" where
  "always_refused = \<lparr>op_name = ''fetch'', op_run = (\<lambda>k. Inl ConnectionError)\<rparr>"

text \<open>
  Two spawners without a decision callback, one with the default action of the source
  (\<open>STOP_PIPELINE\<close>) and one that continues; a pending background task with a timeout
  of one second; a child that never exits (each poll half a second after the one
  before); and a child whose launch raises.
\<close>

definition default_spawner :: ClaudeSpawner where
  "default_spawner =
     \<lparr>project_root = ''/repo'', timeout_seconds = 600, on_critical_error = None,
      default_escalation = STOP_PIPELINE, critical_errors = []\<rparr>"

definition lenient_spawner :: ClaudeSpawner where
  "lenient_spawner = default_spawner\<lparr>default_escalation := CONTINUE\<rparr>"

definition pending_task :: BackgroundTask where
  "pending_task =
     \<lparr>bt_task_id = ''dev_1'', bt_stage_name = ''dev'', process = None, bt_status = PENDING,
      start_time = 0, timeout = 1, result = None, stdout_file = None, stderr_file = None\<rparr>"

definition sleeper_env :: spawn_env where
  "sleeper_env =
     quick_exit_env\<lparr>poll := (\<lambda>k. Still_running), stdout_content := '''', duration := 2\<rparr>"

definition no_binary_env :: spawn_env where
  "no_binary_env = quick_exit_env\<lparr>launch_error := Some FileNotFoundError\<rparr>"

definition read_only_env :: spawn_env where
  "read_only_env =
     quick_exit_env\<lparr>setup_error := Some \<lparr>exc_class = ''PermissionError'',
                                           exc_bases = [''OSError''],
                                           exc_msg = ''.orchestrate-temp''\<rparr>\<rparr>"

text \<open>A child whose every poll from the second on raises.\<close>

definition broken_poll_env :: spawn_env where
  "broken_poll_env =
     quick_exit_env\<lparr>poll := (\<lambda>k. if k = 0 then Still_running
                                   else Poll_raises (RuntimeError ''poll failed''))\<rparr>"

text \<open>
  A child whose second poll raises and that is found exited by every later poll; and a
  child that outlives a timeout of one second and whose every poll from the fourth on
  raises.
\<close>

definition flaky_poll_env :: spawn_env where
  "flaky_poll_env =
     quick_exit_env\<lparr>poll := (\<lambda>k. if k = 0 then Still_running
                                   else if k = 1 then Poll_raises (RuntimeError ''poll failed'')
                                   else Exited (- 15))\<rparr>"

definition unkillable_env :: spawn_env where
  "unkillable_env =
     sleeper_env\<lparr>poll := (\<lambda>k. if k \<le> 2 then Still_running
                                else Poll_raises (RuntimeError ''poll failed''))\<rparr>"

section \<open>BackgroundTask: completion and blocking retrieval\<close>

lemma await_done_Some:
  assumes "await_done view poll_interval k = Some y"
  shows "case y of Inr j \<Rightarrow> is_done (view j) | Inl e \<Rightarrow> poll_interval < 0"
  using assms
proof (induction rule: await_done.raw_induct[rotated 1, consumes 1])
  case (1 await_done view poll_interval k y)
  then show ?case
    by (auto simp: sleep_def split: if_splits option.splits)
qed

lemma await_done_never:
  assumes "\<forall>i. \<not> is_done (view i)" and "0 \<le> poll_interval"
  shows "await_done view poll_interval k = None"
proof (cases "await_done view poll_interval k")
  case None then show ?thesis .
next
  case (Some y)
  from await_done_Some[OF Some] assms show ?thesis
    by (cases y) auto
qed

text \<open>
  Claim C10. \<open>is_done\<close> is true exactly for the statuses \<open>COMPLETED\<close>, \<open>FAILED\<close> and
  \<open>TIMEOUT\<close>; a task with status \<open>CRITICAL_ERROR\<close> is reported not done, so for a task
  that shows that status at every poll \<open>get_result(block=True)\<close> never returns a result:
  with a valid poll interval the call does not end at all (with a negative one the first
  sleep raises).
\<close>

theorem is_done_excludes_critical_error:
  "(is_done t \<longleftrightarrow> bt_status t = COMPLETED \<or> bt_status t = FAILED \<or> bt_status t = TIMEOUT)
   \<and> (bt_status t = CRITICAL_ERROR \<longrightarrow> \<not> is_done t)
   \<and> ((\<forall>k. bt_status (view k) = CRITICAL_ERROR) \<longrightarrow>
        (\<forall>r. get_result view True poll_interval now \<noteq> Some (Inr r))
        \<and> (0 \<le> poll_interval \<longrightarrow> get_result view True poll_interval now = None))"
proof (intro conjI impI allI)
  show "is_done t \<longleftrightarrow> bt_status t = COMPLETED \<or> bt_status t = FAILED \<or> bt_status t = TIMEOUT"
    by (simp add: is_done_def)
next
  assume "bt_status t = CRITICAL_ERROR" then show "\<not> is_done t" by (simp add: is_done_def)
next
  fix r assume a: "\<forall>k. bt_status (view k) = CRITICAL_ERROR"
  then have nd: "\<forall>i. \<not> is_done (view i)" by (simp add: is_done_def)
  show "get_result view True poll_interval now \<noteq> Some (Inr r)"
  proof
    assume "get_result view True poll_interval now = Some (Inr r)"
    then obtain j where "await_done view poll_interval 0 = Some (Inr j)"
      by (auto simp: get_result_def split: option.splits sum.splits)
    from await_done_Some[OF this] nd show False by simp
  qed
next
  assume a: "\<forall>k. bt_status (view k) = CRITICAL_ERROR" and p: "0 \<le> poll_interval"
  then have nd: "\<forall>i. \<not> is_done (view i)" by (simp add: is_done_def)
  show "get_result view True poll_interval now = None"
    by (simp add: get_result_def await_done_never[OF nd p])
qed

theorem is_done_excludes_critical_error_witness:
  "bt_status stuck_task = CRITICAL_ERROR \<and> \<not> is_done stuck_task
   \<and> (\<forall>k. bt_status ((\<lambda>_. stuck_task) k) = CRITICAL_ERROR)
   \<and> get_result (\<lambda>_. stuck_task) True 1 160 = None"
  using is_done_excludes_critical_error[of stuck_task "\<lambda>_. stuck_task" 1 160]
  by (simp add: stuck_task_def)
section \<open>Error classification and escalation\<close>

lemma char_of_eq_code: "char_of (n :: nat) = c \<longleftrightarrow> n mod 256 = of_char c"
  by (metis of_char_of char_of_char)

lemma eq_char_of_code: "c = char_of (n :: nat) \<longleftrightarrow> n mod 256 = of_char c"
  by (metis of_char_of char_of_char)

lemmas char_eval = lower_def lower_char_def digit_char_def char_of_eq_code eq_char_of_code

lemma of_char_lower_char:
  "(of_char (lower_char c) :: nat) =
     (if 65 \<le> (of_char c :: nat) \<and> (of_char c :: nat) \<le> 90 then of_char c + 32 else of_char c)"
  by (simp add: lower_char_def Let_def)

lemma lower_code_eq_iff:
  fixes n m :: nat
  shows "((if 65 \<le> n \<and> n \<le> 90 then n + 32 else n) = (if 65 \<le> m \<and> m \<le> 90 then m + 32 else m))
         \<longleftrightarrow> (n = m \<or> (65 \<le> n \<and> n \<le> 90 \<and> m = n + 32) \<or> (65 \<le> m \<and> m \<le> 90 \<and> n = m + 32))"
  by auto

lemma lower_char_eq_iff: "lower_char a = lower_char b \<longleftrightarrow> same_letter a b"
proof -
  have ab: "a = b \<longleftrightarrow> (of_char a :: nat) = of_char b"
    by (rule of_char_eq_iff[symmetric])
  have AZ: "(of_char (CHR ''A'') :: nat) = 65" "(of_char (CHR ''Z'') :: nat) = 90"
    by simp_all
  have "lower_char a = lower_char b \<longleftrightarrow> (of_char (lower_char a) :: nat) = of_char (lower_char b)"
    by (rule of_char_eq_iff[symmetric])
  also have "\<dots> \<longleftrightarrow> ((of_char a :: nat) = of_char b
      \<or> (65 \<le> (of_char a :: nat) \<and> (of_char a :: nat) \<le> 90 \<and> (of_char b :: nat) = of_char a + 32)
      \<or> (65 \<le> (of_char b :: nat) \<and> (of_char b :: nat) \<le> 90 \<and> (of_char a :: nat) = of_char b + 32))"
    unfolding of_char_lower_char by (rule lower_code_eq_iff)
  also have "\<dots> \<longleftrightarrow> same_letter a b"
    unfolding same_letter_def is_upper_def AZ ab by (simp only: conj_assoc)
  finally show ?thesis .
qed

lemma str_contains_iff:
  "str_contains hay needle \<longleftrightarrow> (\<exists>i \<in> {0..length hay}. prefix needle (drop i hay))"
proof (induction hay)
  case Nil
  then show ?case by simp
next
  case (Cons c cs)
  have "(\<exists>i \<in> {0..length (c # cs)}. prefix needle (drop i (c # cs)))
        \<longleftrightarrow> prefix needle (c # cs) \<or> (\<exists>i \<in> {0..length cs}. prefix needle (drop i cs))"
  proof
    assume "\<exists>i \<in> {0..length (c # cs)}. prefix needle (drop i (c # cs))"
    then obtain i where i: "i \<le> Suc (length cs)" "prefix needle (drop i (c # cs))" by auto
    show "prefix needle (c # cs) \<or> (\<exists>i \<in> {0..length cs}. prefix needle (drop i cs))"
    proof (cases i)
      case 0 with i show ?thesis by simp
    next
      case (Suc j) with i show ?thesis by auto
    qed
  next
    assume "prefix needle (c # cs) \<or> (\<exists>i \<in> {0..length cs}. prefix needle (drop i cs))"
    then show "\<exists>i \<in> {0..length (c # cs)}. prefix needle (drop i (c # cs))"
    proof
      assume "prefix needle (c # cs)"
      then have "prefix needle (drop 0 (c # cs))" by simp
      then show ?thesis by (intro bexI[of _ 0]) auto
    next
      assume "\<exists>i \<in> {0..length cs}. prefix needle (drop i cs)"
      then obtain i where "i \<le> length cs" "prefix needle (drop i cs)" by auto
      then have "prefix needle (drop (Suc i) (c # cs))" "Suc i \<in> {0..length (c # cs)}" by auto
      then show ?thesis by blast
    qed
  qed
  with Cons show ?case by simp
qed

lemma prefix_window:
  "prefix needle xs \<longleftrightarrow> length needle \<le> length xs \<and> take (length needle) xs = needle"
  by (metis prefix_def append_eq_conv_conj append_take_drop_id length_take min.absorb2 prefix_length_le take_is_prefix)

lemma map_eq_all2: "map f xs = map f ys \<longleftrightarrow> list_all2 (\<lambda>a b. f a = f b) xs ys"
  by (induction xs arbitrary: ys) (auto simp: list_all2_Cons1 map_eq_Cons_conv)

lemma str_contains_lower:
  "str_contains (lower s) (lower p) \<longleftrightarrow> contains_ignoring_case s p"
proof -
  have "\<And>i. prefix (lower p) (drop i (lower s))
        \<longleftrightarrow> length p \<le> length s - i \<and> list_all2 same_letter (take (length p) (drop i s)) p"
  proof -
    fix i
    have "prefix (lower p) (drop i (lower s))
          \<longleftrightarrow> length p \<le> length s - i \<and> map lower_char (take (length p) (drop i s)) = map lower_char p"
      by (simp add: prefix_window lower_def take_map drop_map)
    then show "prefix (lower p) (drop i (lower s))
        \<longleftrightarrow> length p \<le> length s - i \<and> list_all2 same_letter (take (length p) (drop i s)) p"
      by (simp add: map_eq_all2 lower_char_eq_iff)
  qed
  then show ?thesis
    by (simp add: str_contains_iff contains_ignoring_case_def lower_def)
qed

lemma any_pattern_in_iff:
  "any_pattern_in ps (lower s) \<longleftrightarrow> (\<exists>p \<in> set ps. contains_ignoring_case s p)"
  by (induction ps) (auto simp: str_contains_lower)

text \<open>
  Claim C2. For every exit code, stderr text and task status the classifier agrees with
  the reference definition: \<open>FATAL\<close> for status \<open>TIMEOUT\<close>; else \<open>CRITICAL\<close> when the
  text contains a critical pattern, ignoring case; else \<open>RECOVERABLE\<close> when it contains
  a transient pattern; else by exit code (\<open>0\<close> recoverable, negative critical, \<open>100\<close> and
  above critical, the rest recoverable). In particular, on the branches the reference
  definition gives them (status not \<open>TIMEOUT\<close>; no critical pattern beside the transient
  one), a text with a critical pattern classifies \<open>CRITICAL\<close> and a text with a transient
  pattern classifies \<open>RECOVERABLE\<close> whatever the exit code, so also for exit code 1: the
  patterns are tried before the exit code.
\<close>

theorem classify_error_severity_reference:
  "classify_error_severity c s st = reference_severity c s st
   \<and> (st \<noteq> TIMEOUT \<and> (\<exists>p \<in> set spec_critical_patterns. contains_ignoring_case s p)
        \<longrightarrow> (\<forall>code. classify_error_severity code s st = CRITICAL))
   \<and> (st \<noteq> TIMEOUT \<and> \<not> (\<exists>p \<in> set spec_critical_patterns. contains_ignoring_case s p)
        \<and> (\<exists>p \<in> set spec_transient_patterns. contains_ignoring_case s p)
        \<longrightarrow> (\<forall>code. classify_error_severity code s st = RECOVERABLE))"
proof -
  have pats: "critical_patterns = spec_critical_patterns"
             "recoverable_patterns = spec_transient_patterns"
    by (simp_all add: critical_patterns_def spec_critical_patterns_def
                      recoverable_patterns_def spec_transient_patterns_def)
  have eq: "\<And>c. classify_error_severity c s st = reference_severity c s st"
    unfolding classify_error_severity_def reference_severity_def Let_def any_pattern_in_iff pats
    by simp
  show ?thesis
    unfolding eq by (simp add: reference_severity_def)
qed


lemma contains_window:
  assumes "i \<le> length s" "length p \<le> length s - i"
    "map lower_char (take (length p) (drop i s)) = map lower_char p"
  shows "contains_ignoring_case s p"
  unfolding contains_ignoring_case_def
  using assms by (intro bexI[of _ i]) (simp_all add: map_eq_all2 lower_char_eq_iff)

theorem classify_error_severity_reference_witness:
  "FAILED \<noteq> TIMEOUT
   \<and> (\<exists>p \<in> set spec_critical_patterns. contains_ignoring_case ''sh: permission DENIED'' p)
   \<and> classify_error_severity 1 ''sh: permission DENIED'' FAILED = CRITICAL
   \<and> \<not> (\<exists>p \<in> set spec_critical_patterns. contains_ignoring_case ''busy, try again'' p)
   \<and> (\<exists>p \<in> set spec_transient_patterns. contains_ignoring_case ''busy, try again'' p)
   \<and> classify_error_severity 1 ''busy, try again'' FAILED = RECOVERABLE"
proof -
  have c1: "contains_ignoring_case ''sh: permission DENIED'' ''Permission denied''"
    by (rule contains_window[of 4]) (simp_all add: char_eval)
  have c2: "contains_ignoring_case ''busy, try again'' ''Try again''"
    by (rule contains_window[of 6]) (simp_all add: char_eval)
  have h1: "\<exists>p \<in> set spec_critical_patterns. contains_ignoring_case ''sh: permission DENIED'' p"
    using c1 by (simp add: spec_critical_patterns_def)
  have h2: "\<exists>p \<in> set spec_transient_patterns. contains_ignoring_case ''busy, try again'' p"
    using c2 by (simp add: spec_transient_patterns_def)
  have h3: "\<not> (\<exists>p \<in> set spec_critical_patterns. contains_ignoring_case ''busy, try again'' p)"
    unfolding any_pattern_in_iff[symmetric]
    by (simp add: spec_critical_patterns_def char_eval)
  have ne: "FAILED \<noteq> TIMEOUT" by simp
  show ?thesis
    using ne h1 h2 h3
      classify_error_severity_reference[of 1 "''sh: permission DENIED''" FAILED]
      classify_error_severity_reference[of 1 "''busy, try again''" FAILED]
    by blast
qed


lemma action_str_inj: "action_str m = action_str m' \<longleftrightarrow> m = m'"
  by (cases m; cases m') simp_all

lemma action_eq_unique: "action_eq a m \<Longrightarrow> action_eq a m' \<Longrightarrow> m = m'"
  by (cases a) (simp_all add: action_str_inj del: action_str.simps)

text \<open>
  Claim C5. For every task result and task id \<open>_execute_escalation_action\<close> returns true
  exactly for the actions \<open>CONTINUE\<close> and \<open>RETRY\<close>, false for \<open>STOP_PIPELINE\<close> and
  \<open>ASK_HUMAN\<close>, and false for every value that equals none of the four.
\<close>

theorem execute_escalation_action_table:
  "execute_escalation_action (Member CONTINUE) r tid
   \<and> execute_escalation_action (Member RETRY) r tid
   \<and> \<not> execute_escalation_action (Member STOP_PIPELINE) r tid
   \<and> \<not> execute_escalation_action (Member ASK_HUMAN) r tid
   \<and> (execute_escalation_action a r tid \<longleftrightarrow> action_eq a CONTINUE \<or> action_eq a RETRY)
   \<and> ((\<forall>m. \<not> action_eq a m) \<longrightarrow> \<not> execute_escalation_action a r tid)"
proof -
  have members:
    "execute_escalation_action (Member CONTINUE) r tid"
    "execute_escalation_action (Member RETRY) r tid"
    "\<not> execute_escalation_action (Member STOP_PIPELINE) r tid"
    "\<not> execute_escalation_action (Member ASK_HUMAN) r tid"
    by (simp_all add: execute_escalation_action_def)
  have stop: "action_eq a STOP_PIPELINE \<Longrightarrow> \<not> action_eq a RETRY"
    using action_eq_unique[of a STOP_PIPELINE RETRY] by auto
  have table: "execute_escalation_action a r tid \<longleftrightarrow> action_eq a CONTINUE \<or> action_eq a RETRY"
    unfolding execute_escalation_action_def using stop by auto
  have unknown: "(\<forall>m. \<not> action_eq a m) \<longrightarrow> \<not> execute_escalation_action a r tid"
    unfolding table by blast
  from members table unknown show ?thesis by blast
qed

theorem execute_escalation_action_table_witness:
  "(\<forall>m. \<not> action_eq (Str ''abort'') m)
   \<and> \<not> execute_escalation_action (Str ''abort'') (exception_result (RuntimeError ''x'') ''t_1'' ''t'' quick_exit_env) ''t_1''
   \<and> (\<forall>m. \<not> action_eq Other_value m)
   \<and> \<not> execute_escalation_action Other_value (exception_result (RuntimeError ''x'') ''t_1'' ''t'' quick_exit_env) ''t_1''"
proof -
  have 1: "\<forall>m. \<not> action_eq (Str ''abort'') m"
  proof
    fix m show "\<not> action_eq (Str ''abort'') m" by (cases m) simp_all
  qed
  have 2: "\<forall>m. \<not> action_eq Other_value m" by simp
  show ?thesis
    using 1 2
      execute_escalation_action_table[of "exception_result (RuntimeError ''x'') ''t_1'' ''t'' quick_exit_env" "''t_1''" "Str ''abort''"]
      execute_escalation_action_table[of "exception_result (RuntimeError ''x'') ''t_1'' ''t'' quick_exit_env" "''t_1''" Other_value]
    by blast
qed

text \<open>
  Claim C6. \<open>_handle_critical_error\<close> appends the error to the history before the
  decision is computed: the history read afterwards is the old one followed by the error
  whatever the decision, the callback is run on a history that already ends with the
  error, and when the callback raises, the configured default action is returned.
\<close>

theorem handle_critical_error_records_first:
  "get_critical_errors (snd (handle_critical_error self e)) = get_critical_errors self @ [e]
   \<and> fst (handle_critical_error self e) =
       (case on_critical_error self of
          None \<Rightarrow> default_escalation self
        | Some handler \<Rightarrow>
            (case handler (get_critical_errors self @ [e]) e of
               Inr action \<Rightarrow> action
             | Inl x \<Rightarrow> default_escalation self))
   \<and> (\<forall>handler x. on_critical_error self = Some handler
          \<and> handler (get_critical_errors self @ [e]) e = Inl x
        \<longrightarrow> fst (handle_critical_error self e) = default_escalation self
            \<and> get_critical_errors (snd (handle_critical_error self e)) = get_critical_errors self @ [e])"
  by (auto simp: handle_critical_error_def get_critical_errors_def Let_def
           split: option.splits sum.splits)

theorem handle_critical_error_records_first_witness:
  "on_critical_error failing_handler_spawner
     = Some (\<lambda>history err. Inl (RuntimeError ''handler broke''))
   \<and> (\<lambda>history err. Inl (RuntimeError ''handler broke'') :: py_exception + EscalationAction)
        (get_critical_errors failing_handler_spawner @ [launch_failure]) launch_failure
       = Inl (RuntimeError ''handler broke'')
   \<and> fst (handle_critical_error failing_handler_spawner launch_failure) = CONTINUE
   \<and> get_critical_errors (snd (handle_critical_error failing_handler_spawner launch_failure))
       = [launch_failure]"
  using handle_critical_error_records_first[of failing_handler_spawner launch_failure]
  by (simp add: failing_handler_spawner_def get_critical_errors_def)

section \<open>Health checks\<close>

text \<open>
  What \<open>check_health\<close> reports for a registered, running process within the memory limit
  that has been silent for longer than the activity timeout.
\<close>

lemma check_health_idle:
  assumes "sample_running smp"
    and "real (sample_rss smp) / (1024 * 1024) \<le> real_of_int (memory_limit_mb self)"
    and "last_activity self p = Some seen"
    and "clock 2 - seen > real_of_int (activity_timeout self)"
  shows "map_sum exc_class hr_status (check_health self fmt (Inr smp) clock p) =
           Inr (if use_cpu_detection self \<and> sample_cpu_percent smp \<ge> cpu_threshold self
                then HEALTHY else NOT_FOUND)"
  using assms
  by (simp add: check_health_def check_health_body_def Let_def logger_warning_def
        no_warning_method_def AttributeError_def isinstance_def exc_ancestors_def)

text \<open>
  Claim C4 against the code. The claim holds in its \<open>HEALTHY\<close> half. In the other half
  the branch that is to report \<open>HUNG\<close> first logs with \<open>logger.warning\<close>; the
  \<open>AttributeError\<close> of that call is caught by the function's own \<open>except Exception\<close>,
  and the report that comes back has status \<open>NOT_FOUND\<close>. Here: the default checker, a
  registered process that is running, within the memory limit and silent for 1500
  seconds, once at 0% CPU and once at 35%.
\<close>

theorem check_health_reports_not_found_for_hung:
  "sample_running idle_sample
   \<and> real (sample_rss idle_sample) / (1024 * 1024) \<le> real_of_int (memory_limit_mb default_checker)
   \<and> last_activity default_checker 4242 = Some 0
   \<and> (1500 :: real) - 0 > real_of_int (activity_timeout default_checker)
   \<and> use_cpu_detection default_checker
   \<and> sample_cpu_percent idle_sample < cpu_threshold default_checker
   \<and> check_health default_checker (\<lambda>d x. ''?'') (Inr idle_sample) (\<lambda>k. 1500) 4242
       = Inr \<lparr>pid = 4242, hr_status = NOT_FOUND, cpu_percent = 0, memory_mb = 0,
              runtime_seconds = 0, last_activity_seconds = 0,
              hr_message = ''Error checking health: '' @ exc_msg no_warning_method\<rparr>
   \<and> map_sum exc_class hr_status
         (check_health default_checker (\<lambda>d x. ''?'') (Inr busy_sample) (\<lambda>k. 1500) 4242)
       = Inr HEALTHY"
  by (simp add: check_health_def check_health_body_def Let_def logger_warning_def
        no_warning_method_def AttributeError_def isinstance_def exc_ancestors_def
        default_checker_def idle_sample_def busy_sample_def)

section \<open>Retrying an operation\<close>




text \<open>
  Claim C9. With \<open>max_attempts \<le> 0\<close> the call \<open>retry\<close> returns \<open>None\<close>: the operation is
  not invoked once, nothing is raised, and the statistics are left as they were.
\<close>

theorem retry_without_attempts:
  "max_attempts cfg \<le> 0 \<Longrightarrow>
     retry cfg stats op = (Inr None, \<lparr>retry_stats = stats, trace = []\<rparr>)
     \<and> invocations (snd (retry cfg stats op)) = 0"
  by (simp add: retry_def retry_loop.simps[of cfg op 0] after_loop_def invocations_def)

theorem retry_without_attempts_witness:
  "max_attempts (default_config\<lparr>max_attempts := 0\<rparr>) \<le> 0
   \<and> retry (default_config\<lparr>max_attempts := 0\<rparr>) [] always_refused
       = (Inr None, \<lparr>retry_stats = [], trace = []\<rparr>)"
  using retry_without_attempts[of "default_config\<lparr>max_attempts := 0\<rparr>" "[]" always_refused]
  by (simp add: default_config_def)

text \<open>
  With two or more attempts allowed, a retryable failure of the first invocation ends
  \<open>retry\<close>.
\<close>

lemma retry_stops_at_warning:
  assumes "2 \<le> max_attempts cfg" and "op_run op 0 = Inl e"
    and "isinstance e (retryable_exceptions cfg)"
  shows "retry cfg stats op = (Inl no_warning_method, \<lparr>retry_stats = stats, trace = [Invoked 1]\<rparr>)"
  using assms
  by (simp add: retry_def retry_loop.simps[of cfg op 0] Let_def logger_warning_def)

lemma isinstance_examples:
  "isinstance ConnectionError [''Exception'']" "isinstance ConnectionError [''OSError'']"
  by (simp_all add: isinstance_def exc_ancestors_def ConnectionError_def)

text \<open>
  Claim C7 against the code. An exception that is not retryable does leave \<open>retry\<close> at
  once. But a retryable failure that is not the last attempt is logged with
  \<open>logger.warning\<close>, inside the \<open>except\<close> block and under no \<open>try\<close>, so the
  \<open>AttributeError\<close> of that call leaves \<open>retry\<close> after the first invocation: with the
  default configuration (three attempts) and an operation that always raises a retryable
  exception there is one invocation, not three, and the exception raised is not the
  operation's.
\<close>

theorem retry_gives_up_after_first_failure:
  "max_attempts default_config = 3
   \<and> op_run always_refused 0 = Inl ConnectionError
   \<and> op_run always_refused 1 = Inl ConnectionError
   \<and> op_run always_refused 2 = Inl ConnectionError
   \<and> isinstance ConnectionError (retryable_exceptions default_config)
   \<and> calculate_delay default_config 1 = Inr 1
   \<and> retry default_config [] always_refused
       = (Inl no_warning_method, \<lparr>retry_stats = [], trace = [Invoked 1]\<rparr>)
   \<and> invocations (snd (retry default_config [] always_refused)) = 1
   \<and> no_warning_method \<noteq> ConnectionError"
proof -
  have cfg: "max_attempts default_config = 3"
    "retryable_exceptions default_config = [''Exception'']"
    by (simp_all add: default_config_def)
  have ops: "op_run always_refused 0 = Inl ConnectionError"
    "op_run always_refused 1 = Inl ConnectionError"
    "op_run always_refused 2 = Inl ConnectionError"
    by (simp_all add: always_refused_def)
  have again: "isinstance ConnectionError (retryable_exceptions default_config)"
    by (simp add: cfg isinstance_examples)
  have d: "calculate_delay default_config 1 = Inr 1"
    by (simp add: calculate_delay_def float_pow_def float_of_int_def float_max_def default_config_def)
  have two: "2 \<le> max_attempts default_config" by (simp add: cfg)
  note run = retry_stops_at_warning[OF two ops(1) again, of "[]"]
  have inv: "invocations (snd (retry default_config [] always_refused)) = 1"
    unfolding run by (simp add: invocations_def)
  have ne: "no_warning_method \<noteq> ConnectionError"
    by (simp add: no_warning_method_def AttributeError_def ConnectionError_def)
  from cfg(1) ops again d run inv ne show ?thesis by blast
qed

section \<open>Timeouts and exceptions of a spawn\<close>

lemma poll_loop_skips:
  assumes "survives env limit k"
  shows "poll_loop (poll env) (elapsed env) limit 0 = poll_loop (poll env) (elapsed env) limit k"
  using assms
proof (induction k)
  case 0
  show ?case by simp
next
  case (Suc k)
  then have s: "survives env limit k" and here: "poll env k = Still_running"
    "\<not> elapsed env k > real_of_int limit"
    by (simp_all add: survives_def not_less)
  have "poll_loop (poll env) (elapsed env) limit k = poll_loop (poll env) (elapsed env) limit (Suc k)"
    by (subst poll_loop.simps) (simp add: here)
  with Suc.IH[OF s] show ?case by simp
qed

lemma poll_loop_timed_out:
  assumes "outlives env limit k"
  shows "poll_loop (poll env) (elapsed env) limit 0 = Some (Timed_out, Suc k)"
proof -
  from assms have s: "survives env limit k" and here: "poll env k = Still_running"
    "elapsed env k > real_of_int limit"
    by (simp_all add: outlives_def)
  have "poll_loop (poll env) (elapsed env) limit k = Some (Timed_out, Suc k)"
    by (subst poll_loop.simps) (simp add: here)
  with poll_loop_skips[OF s] show ?thesis by simp
qed

lemma poll_loop_raised:
  assumes "raises_at env limit k e"
  shows "poll_loop (poll env) (elapsed env) limit 0 = Some (Watch_raised e, Suc k)"
proof -
  from assms have s: "survives env limit k" and here: "poll env k = Poll_raises e"
    by (simp_all add: raises_at_def)
  have "poll_loop (poll env) (elapsed env) limit k = Some (Watch_raised e, Suc k)"
    by (subst poll_loop.simps) (simp add: here)
  with poll_loop_skips[OF s] show ?thesis by simp
qed

lemma history_after_handle:
  "critical_errors (snd (handle_critical_error self err)) = critical_errors self @ [err]"
  by (simp add: handle_critical_error_def Let_def split: option.splits sum.splits)

lemma timeout_path_eq:
  "timeout_path self env limit tid label =
     (if proceeds self (timeout_error limit tid label env) (timeout_result limit tid label env) tid
      then Inr (timeout_result limit tid label env)
      else Inl (RuntimeError (''Pipeline stopped due to timeout in '' @ label)),
      snd (handle_critical_error self (timeout_error limit tid label env)))"
  by (simp add: timeout_path_def proceeds_def Let_def split: prod.splits)

lemma escalate_exception_eq:
  "escalate_exception self env tid label e =
     (if proceeds self (exception_error e tid label env) (exception_result e tid label env) tid
      then Inr (exception_result e tid label env)
      else Inl (RuntimeError (''Pipeline stopped due to exception in '' @ label @ '': ''
                              @ exc_msg e)),
      snd (handle_critical_error self (exception_error e tid label env)))"
  by (simp add: escalate_exception_def proceeds_def Let_def split: prod.splits)

lemma fatal_errors_append [simp]:
  "fatal_errors (xs @ ys) = fatal_errors xs @ fatal_errors ys"
  by (simp add: fatal_errors_def)

lemma fatal_errors_single [simp]:
  "fatal_errors [timeout_error limit tid label env] = [timeout_error limit tid label env]"
  "fatal_errors [exception_error e tid label env] = []"
  by (simp_all add: fatal_errors_def timeout_error_def exception_error_def)

lemma quiet_kill:
  assumes "kill_is_quiet env n i"
  obtains j where "kill_process_tree env n i = (None, j)"
  using assms by (cases "kill_process_tree env n i") (simp add: kill_is_quiet_def)

lemma spawn_blocking_timed_out:
  assumes "setup_error env = None" and "launch_error env = None"
    and "outlives env (actual_timeout self t) k"
    and "kill_is_quiet env 0 (Suc k)"
  shows "spawn_blocking self t stage env =
     (let limit = actual_timeout self t; label = task_label stage;
          tid = blocking_task_id label env;
          cerr = timeout_error limit tid label env;
          res = timeout_result limit tid label env;
          self1 = snd (handle_critical_error self cerr)
      in if proceeds self cerr res tid then Some (Inr res, self1)
         else Some (except_handler self1 env
                      \<lparr>started = True, polls_done = snd (kill_process_tree env 0 (Suc k)),
                       kills_done = 1\<rparr> tid label
                      (RuntimeError (''Pipeline stopped due to timeout in '' @ label))))"
proof -
  from quiet_kill[OF assms(4)] obtain j where j: "kill_process_tree env 0 (Suc k) = (None, j)" .
  show ?thesis
    using assms(1,2) poll_loop_timed_out[OF assms(3)]
    by (simp add: spawn_blocking_def try_body_def timeout_branch_def timeout_path_eq Let_def j)
qed

lemma background_timed_out:
  assumes "setup_error env = None" and "launch_error env = None"
    and "outlives env (timeout task) k"
    and "kill_is_quiet env 0 (Suc k)"
  shows "execute_task self task env =
           Some (None,
                 background_timeout
                   (task\<lparr>start_time := start_clock env, bt_status := RUNNING,
                         stdout_file := Some (temp_path self (bt_task_id task) ''.stdout''),
                         stderr_file := Some (temp_path self (bt_task_id task) ''.stderr''),
                         process := Some (child_pid env)\<rparr>) env,
                 self)"
proof -
  from quiet_kill[OF assms(4)] obtain j where j: "kill_process_tree env 0 (Suc k) = (None, j)" .
  show ?thesis
    using assms(1,2) poll_loop_timed_out[OF assms(3)]
    by (simp add: execute_task_def Let_def j)
qed

text \<open>
  Claim C1, as amended. For every blocking spawn whose child runs longer than the
  configured timeout and is then killed without an exception leaving
  \<open>_kill_process_tree\<close>, exactly one error of severity \<open>FATAL\<close> is appended to the
  history for that timeout, built without consulting the classifier; every result the
  call returns has \<open>success = False\<close>, and when the escalation policy lets the call
  proceed the returned result is the one built for the timeout, with status \<open>TIMEOUT\<close>.
  On the background path, under the same conditions, the task ends with status
  \<open>TIMEOUT\<close> and a result with status \<open>TIMEOUT\<close> and \<open>success = False\<close>, and the history
  is left as it was.
\<close>

theorem timeout_escalation:
  assumes "setup_error env = None" and "launch_error env = None"
    and "kill_is_quiet env 0 (Suc k)"
  shows
   "(outlives env (actual_timeout self t) k \<longrightarrow>
      (let limit = actual_timeout self t; label = task_label stage;
           tid = blocking_task_id label env;
           cerr = timeout_error limit tid label env;
           res = timeout_result limit tid label env
       in severity cerr = FATAL \<and> status res = TIMEOUT \<and> \<not> success res
          \<and> critical_error res = Some cerr
          \<and> (\<exists>outcome self'. spawn_blocking self t stage env = Some (outcome, self')
               \<and> prefix (critical_errors self @ [cerr]) (critical_errors self')
               \<and> fatal_errors (critical_errors self') = fatal_errors (critical_errors self) @ [cerr]
               \<and> (\<forall>r. outcome = Inr r \<longrightarrow> \<not> success r)
               \<and> (proceeds self cerr res tid \<longrightarrow>
                     outcome = Inr res \<and> critical_errors self' = critical_errors self @ [cerr]))))
    \<and> (outlives env (timeout task) k \<longrightarrow>
        (\<exists>task' res. execute_task self task env = Some (None, task', self)
            \<and> bt_status task' = TIMEOUT \<and> result task' = Some res
            \<and> status res = TIMEOUT \<and> \<not> success res
            \<and> critical_error res = None \<and> error_severity res = None))"
proof (intro conjI impI)
  assume out: "outlives env (actual_timeout self t) k"
  define limit where "limit = actual_timeout self t"
  define label where "label = task_label stage"
  define tid where "tid = blocking_task_id label env"
  define cerr where "cerr = timeout_error limit tid label env"
  define res where "res = timeout_result limit tid label env"
  define self1 where "self1 = snd (handle_critical_error self cerr)"
  define abort where "abort = RuntimeError (''Pipeline stopped due to timeout in '' @ label)"
  define hs where "hs = \<lparr>started = True, polls_done = snd (kill_process_tree env 0 (Suc k)),
                          kills_done = 1\<rparr>"
  have run: "spawn_blocking self t stage env =
      (if proceeds self cerr res tid then Some (Inr res, self1)
       else Some (except_handler self1 env hs tid label abort))"
    using spawn_blocking_timed_out[OF assms(1,2) out assms(3), of stage]
    by (simp add: Let_def limit_def label_def tid_def cerr_def res_def self1_def abort_def hs_def)
  have h1: "critical_errors self1 = critical_errors self @ [cerr]"
    by (simp add: self1_def history_after_handle)
  have fields: "severity cerr = FATAL" "status res = TIMEOUT" "\<not> success res"
    "critical_error res = Some cerr"
    by (simp_all add: cerr_def res_def timeout_error_def timeout_result_def)
  have fat: "fatal_errors [cerr] = [cerr]"
    by (simp add: cerr_def)
  have "\<exists>outcome self'. spawn_blocking self t stage env = Some (outcome, self')
               \<and> prefix (critical_errors self @ [cerr]) (critical_errors self')
               \<and> fatal_errors (critical_errors self') = fatal_errors (critical_errors self) @ [cerr]
               \<and> (\<forall>r. outcome = Inr r \<longrightarrow> \<not> success r)
               \<and> (proceeds self cerr res tid \<longrightarrow>
                     outcome = Inr res \<and> critical_errors self' = critical_errors self @ [cerr])"
  proof (cases "proceeds self cerr res tid")
    case True
    with run h1 fields fat show ?thesis by simp
  next
    case False
    show ?thesis
    proof (cases "kill_if_started env hs")
      case (Some e')
      then have "except_handler self1 env hs tid label abort = (Inl e', self1)"
        by (simp add: except_handler_def)
      with False run h1 fat show ?thesis by simp
    next
      case None
      define self2 where "self2 = snd (handle_critical_error self1 (exception_error abort tid label env))"
      have h2: "critical_errors self2 = critical_errors self @ [cerr] @ [exception_error abort tid label env]"
        by (simp add: self2_def history_after_handle h1)
      obtain outcome where o: "except_handler self1 env hs tid label abort = (outcome, self2)"
        "\<forall>r. outcome = Inr r \<longrightarrow> \<not> success r"
        using None
        by (simp add: except_handler_def escalate_exception_eq self2_def exception_result_def)
      have fat2: "fatal_errors [cerr, exception_error abort tid label env] = [cerr]"
        using fat fatal_errors_append[of "[cerr]" "[exception_error abort tid label env]"]
        by simp
      from False run o h2 fat2 show ?thesis by simp
    qed
  qed
  with fields show "let limit = actual_timeout self t; label = task_label stage;
           tid = blocking_task_id label env;
           cerr = timeout_error limit tid label env;
           res = timeout_result limit tid label env
       in severity cerr = FATAL \<and> status res = TIMEOUT \<and> \<not> success res
          \<and> critical_error res = Some cerr
          \<and> (\<exists>outcome self'. spawn_blocking self t stage env = Some (outcome, self')
               \<and> prefix (critical_errors self @ [cerr]) (critical_errors self')
               \<and> fatal_errors (critical_errors self') = fatal_errors (critical_errors self) @ [cerr]
               \<and> (\<forall>r. outcome = Inr r \<longrightarrow> \<not> success r)
               \<and> (proceeds self cerr res tid \<longrightarrow>
                     outcome = Inr res \<and> critical_errors self' = critical_errors self @ [cerr]))"
    unfolding Let_def limit_def label_def tid_def cerr_def res_def by blast
next
  assume out: "outlives env (timeout task) k"
  show "\<exists>task' res. execute_task self task env = Some (None, task', self)
            \<and> bt_status task' = TIMEOUT \<and> result task' = Some res
            \<and> status res = TIMEOUT \<and> \<not> success res
            \<and> critical_error res = None \<and> error_severity res = None"
    unfolding background_timed_out[OF assms(1,2) out assms(3)]
    by (simp add: background_timeout_def)
qed


lemma sleeper_outlives: "outlives sleeper_env 1 2"
proof -
  have "\<And>j. j < 2 \<Longrightarrow> elapsed sleeper_env j \<le> 1"
  proof -
    fix j :: nat assume "j < 2"
    then have "j = 0 \<or> j = 1" by auto
    then show "elapsed sleeper_env j \<le> 1"
      by (auto simp: sleeper_env_def quick_exit_env_def)
  qed
  then show ?thesis
    by (simp add: outlives_def survives_def sleeper_env_def quick_exit_env_def)
qed

lemma sleeper_starts: "setup_error sleeper_env = None" "launch_error sleeper_env = None"
  by (simp_all add: sleeper_env_def quick_exit_env_def)

lemma sleeper_kill: "kill_process_tree sleeper_env n i = (None, Suc i)"
  by (simp add: kill_process_tree_def poll_then_def swallow_def sleeper_env_def
        quick_exit_env_def quiet_signals_def)

lemma sleeper_quiet: "kill_is_quiet sleeper_env n i"
  by (simp add: kill_is_quiet_def sleeper_kill)

theorem timeout_escalation_witness:
  "setup_error sleeper_env = None \<and> launch_error sleeper_env = None
   \<and> actual_timeout lenient_spawner (Some 1) = 1 \<and> timeout pending_task = 1
   \<and> poll sleeper_env 2 = Still_running \<and> elapsed sleeper_env 2 > 1
   \<and> kill_process_tree sleeper_env 0 3 = (None, 4)
   \<and> fst (the (spawn_blocking lenient_spawner (Some 1) (Some ''dev'') sleeper_env))
       = Inr (timeout_result 1 (blocking_task_id ''dev'' sleeper_env) ''dev'' sleeper_env)
   \<and> critical_errors (snd (the (spawn_blocking lenient_spawner (Some 1) (Some ''dev'') sleeper_env)))
       = [timeout_error 1 (blocking_task_id ''dev'' sleeper_env) ''dev'' sleeper_env]
   \<and> bt_status (fst (snd (the (execute_task lenient_spawner pending_task sleeper_env)))) = TIMEOUT"
proof -
  have lim: "actual_timeout lenient_spawner (Some 1) = 1" "timeout pending_task = 1"
    "task_label (Some ''dev'') = ''dev''"
    by (simp_all add: actual_timeout_def pending_task_def task_label_def)
  have obs: "poll sleeper_env 2 = Still_running" "elapsed sleeper_env 2 > 1"
    by (simp_all add: sleeper_env_def quick_exit_env_def)
  have kill: "kill_process_tree sleeper_env 0 3 = (None, 4)"
    using sleeper_kill[of 0 3] by simp
  have quiet: "kill_is_quiet sleeper_env 0 (Suc 2)" by (rule sleeper_quiet)
  have go: "proceeds lenient_spawner
              (timeout_error 1 (blocking_task_id ''dev'' sleeper_env) ''dev'' sleeper_env)
              (timeout_result 1 (blocking_task_id ''dev'' sleeper_env) ''dev'' sleeper_env)
              (blocking_task_id ''dev'' sleeper_env)"
    by (simp add: proceeds_def handle_critical_error_def lenient_spawner_def default_spawner_def
          execute_escalation_action_def)
  have empty: "critical_errors lenient_spawner = []"
    by (simp add: lenient_spawner_def default_spawner_def)
  note T = timeout_escalation[OF sleeper_starts quiet, of lenient_spawner "Some 1" "Some ''dev''" pending_task]
  from T[THEN conjunct1] sleeper_outlives go
  have blocking:
    "fst (the (spawn_blocking lenient_spawner (Some 1) (Some ''dev'') sleeper_env))
       = Inr (timeout_result 1 (blocking_task_id ''dev'' sleeper_env) ''dev'' sleeper_env)"
    "critical_errors (snd (the (spawn_blocking lenient_spawner (Some 1) (Some ''dev'') sleeper_env)))
       = [timeout_error 1 (blocking_task_id ''dev'' sleeper_env) ''dev'' sleeper_env]"
    by (auto simp: lim Let_def empty)
  from T[THEN conjunct2] sleeper_outlives
  have background:
    "bt_status (fst (snd (the (execute_task lenient_spawner pending_task sleeper_env)))) = TIMEOUT"
    by (auto simp: lim)
  from sleeper_starts lim obs kill blocking background show ?thesis by blast
qed

lemma unkillable_outlives: "outlives unkillable_env 1 2"
proof -
  have "\<And>j. j < 2 \<Longrightarrow> elapsed unkillable_env j \<le> 1 \<and> poll unkillable_env j = Still_running"
  proof -
    fix j :: nat assume "j < 2"
    then have "j = 0 \<or> j = 1" by auto
    then show "elapsed unkillable_env j \<le> 1 \<and> poll unkillable_env j = Still_running"
      by (auto simp: unkillable_env_def sleeper_env_def quick_exit_env_def)
  qed
  then show ?thesis
    by (simp add: outlives_def survives_def unkillable_env_def sleeper_env_def quick_exit_env_def)
qed

lemma unkillable_kill:
  "3 \<le> i \<Longrightarrow> kill_process_tree unkillable_env n i = (Some (RuntimeError ''poll failed''), Suc i)"
  by (simp add: kill_process_tree_def poll_then_def swallow_def unkillable_env_def
        sleeper_env_def quick_exit_env_def quiet_signals_def isinstance_def exc_ancestors_def
        RuntimeError_def)

text \<open>
  Claim C1 as stated fails in two places. On the background path a task whose child is
  still running after 1.5 seconds, with a timeout of one second, ends with status
  \<open>TIMEOUT\<close> while the history stays empty and the result carries no error record. And
  in \<open>spawn_blocking\<close> the child is killed before the error of the timeout is built: when
  the poll inside \<open>_kill_process_tree\<close> raises an exception that is no \<open>OSError\<close>, there
  and again in the handler, the call is left with that exception and an empty history.
\<close>

theorem background_timeout_counterexample:
  "setup_error sleeper_env = None \<and> launch_error sleeper_env = None
   \<and> poll sleeper_env 0 = Still_running \<and> elapsed sleeper_env 0 \<le> real_of_int (timeout pending_task)
   \<and> poll sleeper_env 1 = Still_running \<and> elapsed sleeper_env 1 \<le> real_of_int (timeout pending_task)
   \<and> poll sleeper_env 2 = Still_running \<and> elapsed sleeper_env 2 > real_of_int (timeout pending_task)
   \<and> execute_task default_spawner pending_task sleeper_env \<noteq> None
   \<and> bt_status (fst (snd (the (execute_task default_spawner pending_task sleeper_env)))) = TIMEOUT
   \<and> get_critical_errors default_spawner = []
   \<and> get_critical_errors (snd (snd (the (execute_task default_spawner pending_task sleeper_env)))) = []
   \<and> map_option critical_error
        (result (fst (snd (the (execute_task default_spawner pending_task sleeper_env)))))
       = Some None
   \<and> setup_error unkillable_env = None \<and> launch_error unkillable_env = None
   \<and> actual_timeout default_spawner (Some 1) = 1
   \<and> poll unkillable_env 0 = Still_running \<and> elapsed unkillable_env 0 \<le> 1
   \<and> poll unkillable_env 1 = Still_running \<and> elapsed unkillable_env 1 \<le> 1
   \<and> poll unkillable_env 2 = Still_running \<and> elapsed unkillable_env 2 > 1
   \<and> spawn_blocking default_spawner (Some 1) (Some ''dev'') unkillable_env
       = Some (Inl (RuntimeError ''poll failed''), default_spawner)"
proof -
  have t: "timeout pending_task = 1" by (simp add: pending_task_def)
  have out: "outlives sleeper_env (timeout pending_task) 2"
    unfolding t by (rule sleeper_outlives)
  have obs: "poll sleeper_env 0 = Still_running" "elapsed sleeper_env 0 \<le> real_of_int (timeout pending_task)"
    "poll sleeper_env 1 = Still_running" "elapsed sleeper_env 1 \<le> real_of_int (timeout pending_task)"
    "poll sleeper_env 2 = Still_running" "elapsed sleeper_env 2 > real_of_int (timeout pending_task)"
    by (simp_all add: sleeper_env_def quick_exit_env_def t)
  have hist: "get_critical_errors default_spawner = []"
    by (simp add: get_critical_errors_def default_spawner_def)
  note run = background_timed_out[OF sleeper_starts out sleeper_quiet, of default_spawner]
  have after: "execute_task default_spawner pending_task sleeper_env \<noteq> None"
    "bt_status (fst (snd (the (execute_task default_spawner pending_task sleeper_env)))) = TIMEOUT"
    "get_critical_errors (snd (snd (the (execute_task default_spawner pending_task sleeper_env)))) = []"
    "map_option critical_error
        (result (fst (snd (the (execute_task default_spawner pending_task sleeper_env)))))
       = Some None"
    unfolding run by (simp_all add: background_timeout_def hist)
  have env2: "setup_error unkillable_env = None" "launch_error unkillable_env = None"
    "poll unkillable_env 0 = Still_running" "elapsed unkillable_env 0 \<le> 1"
    "poll unkillable_env 1 = Still_running" "elapsed unkillable_env 1 \<le> 1"
    "poll unkillable_env 2 = Still_running" "elapsed unkillable_env 2 > 1"
    by (simp_all add: unkillable_env_def sleeper_env_def quick_exit_env_def)
  have lim: "actual_timeout default_spawner (Some 1) = 1"
    by (simp add: actual_timeout_def)
  have loop: "poll_loop (poll unkillable_env) (elapsed unkillable_env) 1 0 = Some (Timed_out, 3)"
    using poll_loop_timed_out[OF unkillable_outlives] by (simp add: numeral_3_eq_3)
  have k0: "kill_process_tree unkillable_env 0 3 = (Some (RuntimeError ''poll failed''), 4)"
    using unkillable_kill[of 3 0] by simp
  have k1: "kill_process_tree unkillable_env (Suc 0) 4 = (Some (RuntimeError ''poll failed''), 5)"
    using unkillable_kill[of 4 "Suc 0"] by simp
  have blocking: "spawn_blocking default_spawner (Some 1) (Some ''dev'') unkillable_env
       = Some (Inl (RuntimeError ''poll failed''), default_spawner)"
    by (simp add: spawn_blocking_def Let_def env2 lim try_body_def loop timeout_branch_def k0
          except_handler_def kill_if_started_def k1)
  from sleeper_starts obs hist after env2 lim blocking show ?thesis by blast
qed

text \<open>
  With the default action \<open>STOP_PIPELINE\<close> the abort raised on the timeout path is raised
  inside the \<open>try\<close> and caught by the handler of \<open>spawn_blocking\<close> itself: the history
  receives the \<open>FATAL\<close> error of the timeout and then a \<open>CRITICAL\<close> error for the abort,
  and the abort that leaves the call is the handler's.
\<close>

lemma stop_after_timeout_is_escalated_twice:
  "spawn_blocking default_spawner (Some 1) (Some ''dev'') sleeper_env =
     Some (Inl (RuntimeError ''Pipeline stopped due to exception in dev: Pipeline stopped due to timeout in dev''),
           default_spawner\<lparr>critical_errors :=
             [timeout_error 1 (blocking_task_id ''dev'' sleeper_env) ''dev'' sleeper_env,
              exception_error (RuntimeError ''Pipeline stopped due to timeout in dev'')
                (blocking_task_id ''dev'' sleeper_env) ''dev'' sleeper_env]\<rparr>)"
proof -
  have lim: "actual_timeout default_spawner (Some 1) = 1" "task_label (Some ''dev'') = ''dev''"
    by (simp_all add: actual_timeout_def task_label_def)
  have out: "outlives sleeper_env (actual_timeout default_spawner (Some 1)) 2"
    unfolding lim by (rule sleeper_outlives)
  show ?thesis
    unfolding spawn_blocking_timed_out[OF sleeper_starts out sleeper_quiet] lim Let_def
    by (simp add: proceeds_def handle_critical_error_def default_spawner_def
          execute_escalation_action_def except_handler_def kill_if_started_def sleeper_kill
          escalate_exception_eq RuntimeError_def)
qed

lemma try_body_raised:
  assumes "launch_error env = Some e \<or> (launch_error env = None \<and> raises_at env limit k e)"
  shows "try_body self env limit tid label =
           Some (Inl e, self,
                 if launch_error env = None
                 then \<lparr>started = True, polls_done = Suc k, kills_done = 0\<rparr>
                 else \<lparr>started = False, polls_done = 0, kills_done = 0\<rparr>)"
  using assms by (auto simp: try_body_def poll_loop_raised)

lemma spawn_blocking_raised:
  assumes "setup_error env = None"
    and "launch_error env = Some e
         \<or> (launch_error env = None \<and> raises_at env (actual_timeout self t) k e
             \<and> kill_is_quiet env 0 (Suc k))"
  shows "spawn_blocking self t stage env =
           Some (escalate_exception self env (blocking_task_id (task_label stage) env)
                   (task_label stage) e)"
proof -
  from assms(2) have r: "launch_error env = Some e
      \<or> (launch_error env = None \<and> raises_at env (actual_timeout self t) k e)" by blast
  from assms(2) have q: "launch_error env = None \<Longrightarrow> fst (kill_process_tree env 0 (Suc k)) = None"
    by (auto simp: kill_is_quiet_def)
  show ?thesis
    using assms(1) q
    by (auto simp: spawn_blocking_def Let_def try_body_raised[OF r] except_handler_def
          kill_if_started_def)
qed

lemma background_raised:
  assumes "setup_error env = None"
    and "launch_error env = Some e
         \<or> (launch_error env = None \<and> raises_at env (timeout task) k e
             \<and> kill_is_quiet env 0 (Suc k))"
  shows "\<exists>task' res. execute_task self task env = Some (None, task', self)
            \<and> bt_status task' = FAILED \<and> result task' = Some res
            \<and> status res = FAILED \<and> \<not> success res
            \<and> critical_error res = None \<and> error_severity res = None"
  using assms
  by (auto simp: execute_task_def Let_def poll_loop_raised background_handler_def
        kill_if_started_def kill_is_quiet_def)

text \<open>
  Claim C3, as amended. For every exception raised inside the guarded region of
  \<open>spawn_blocking\<close> by the launch of the child or by a poll of the monitoring loop, if no
  exception leaves the handler's clean-up \<open>_kill_process_tree\<close>, the spawner builds an
  error of severity \<open>CRITICAL\<close> without consulting the classifier, appends it to the
  history and runs the escalation policy, and then either returns a result with
  \<open>success = False\<close> and status \<open>CRITICAL_ERROR\<close> or raises the abort \<open>RuntimeError\<close>,
  as the policy decides. On the background path such an exception leaves the history as
  it was: the task ends with status \<open>FAILED\<close> and a result with \<open>success = False\<close>.
\<close>

theorem exception_escalation:
  assumes "setup_error env = None"
  shows
   "(launch_error env = Some e
       \<or> (launch_error env = None \<and> raises_at env (actual_timeout self t) k e
           \<and> kill_is_quiet env 0 (Suc k)) \<longrightarrow>
      (let label = task_label stage;
           tid = blocking_task_id label env;
           cerr = exception_error e tid label env;
           res = exception_result e tid label env
       in severity cerr = CRITICAL \<and> status res = CRITICAL_ERROR \<and> \<not> success res
          \<and> critical_error res = Some cerr
          \<and> spawn_blocking self t stage env =
              Some (if proceeds self cerr res tid then Inr res
                    else Inl (RuntimeError (''Pipeline stopped due to exception in '' @ label
                                            @ '': '' @ exc_msg e)),
                    snd (handle_critical_error self cerr))
          \<and> critical_errors (snd (handle_critical_error self cerr))
              = critical_errors self @ [cerr]))
    \<and> (launch_error env = Some e
         \<or> (launch_error env = None \<and> raises_at env (timeout task) k e
             \<and> kill_is_quiet env 0 (Suc k)) \<longrightarrow>
        (\<exists>task' res. execute_task self task env = Some (None, task', self)
            \<and> bt_status task' = FAILED \<and> result task' = Some res
            \<and> status res = FAILED \<and> \<not> success res
            \<and> critical_error res = None \<and> error_severity res = None))"
proof (intro conjI impI)
  assume r: "launch_error env = Some e
       \<or> (launch_error env = None \<and> raises_at env (actual_timeout self t) k e
           \<and> kill_is_quiet env 0 (Suc k))"
  show "let label = task_label stage;
           tid = blocking_task_id label env;
           cerr = exception_error e tid label env;
           res = exception_result e tid label env
       in severity cerr = CRITICAL \<and> status res = CRITICAL_ERROR \<and> \<not> success res
          \<and> critical_error res = Some cerr
          \<and> spawn_blocking self t stage env =
              Some (if proceeds self cerr res tid then Inr res
                    else Inl (RuntimeError (''Pipeline stopped due to exception in '' @ label
                                            @ '': '' @ exc_msg e)),
                    snd (handle_critical_error self cerr))
          \<and> critical_errors (snd (handle_critical_error self cerr))
              = critical_errors self @ [cerr]"
    unfolding Let_def spawn_blocking_raised[OF assms r] escalate_exception_eq
    by (simp add: history_after_handle exception_error_def exception_result_def)
next
  assume r: "launch_error env = Some e
         \<or> (launch_error env = None \<and> raises_at env (timeout task) k e
             \<and> kill_is_quiet env 0 (Suc k))"
  from background_raised[OF assms r, of self]
  show "\<exists>task' res. execute_task self task env = Some (None, task', self)
            \<and> bt_status task' = FAILED \<and> result task' = Some res
            \<and> status res = FAILED \<and> \<not> success res
            \<and> critical_error res = None \<and> error_severity res = None" .
qed


lemma flaky_poll_raises: "raises_at flaky_poll_env 600 1 (RuntimeError ''poll failed'')"
  by (simp add: raises_at_def survives_def flaky_poll_env_def quick_exit_env_def)

lemma flaky_poll_quiet: "kill_is_quiet flaky_poll_env 0 (Suc 1)"
  by (simp add: kill_is_quiet_def kill_process_tree_def poll_then_def swallow_def
        flaky_poll_env_def quick_exit_env_def quiet_signals_def)

lemma broken_poll_kill:
  "1 \<le> i \<Longrightarrow> kill_process_tree broken_poll_env n i = (Some (RuntimeError ''poll failed''), Suc i)"
  by (simp add: kill_process_tree_def poll_then_def swallow_def broken_poll_env_def
        quick_exit_env_def quiet_signals_def isinstance_def exc_ancestors_def RuntimeError_def)

theorem exception_escalation_witness:
  "setup_error no_binary_env = None \<and> launch_error no_binary_env = Some FileNotFoundError
   \<and> spawn_blocking lenient_spawner None (Some ''dev'') no_binary_env
       = Some (Inr (exception_result FileNotFoundError (blocking_task_id ''dev'' no_binary_env)
                      ''dev'' no_binary_env),
               lenient_spawner\<lparr>critical_errors :=
                 [exception_error FileNotFoundError (blocking_task_id ''dev'' no_binary_env)
                    ''dev'' no_binary_env]\<rparr>)
   \<and> spawn_blocking default_spawner None (Some ''dev'') no_binary_env
       = Some (Inl (RuntimeError (''Pipeline stopped due to exception in dev: ''
                                  @ exc_msg FileNotFoundError)),
               default_spawner\<lparr>critical_errors :=
                 [exception_error FileNotFoundError (blocking_task_id ''dev'' no_binary_env)
                    ''dev'' no_binary_env]\<rparr>)
   \<and> setup_error flaky_poll_env = None \<and> launch_error flaky_poll_env = None
   \<and> poll flaky_poll_env 0 = Still_running \<and> elapsed flaky_poll_env 0 \<le> 600
   \<and> poll flaky_poll_env 1 = Poll_raises (RuntimeError ''poll failed'')
   \<and> kill_process_tree flaky_poll_env 0 2 = (None, 3)
   \<and> fst (the (spawn_blocking lenient_spawner None (Some ''dev'') flaky_poll_env))
       = Inr (exception_result (RuntimeError ''poll failed'')
                (blocking_task_id ''dev'' flaky_poll_env) ''dev'' flaky_poll_env)
   \<and> bt_status (fst (snd (the (execute_task default_spawner pending_task no_binary_env)))) = FAILED"
proof -
  have env1: "setup_error no_binary_env = None" "launch_error no_binary_env = Some FileNotFoundError"
    by (simp_all add: no_binary_env_def quick_exit_env_def)
  have env2: "setup_error flaky_poll_env = None" "launch_error flaky_poll_env = None"
    "poll flaky_poll_env 0 = Still_running" "elapsed flaky_poll_env 0 \<le> 600"
    "poll flaky_poll_env 1 = Poll_raises (RuntimeError ''poll failed'')"
    by (simp_all add: flaky_poll_env_def quick_exit_env_def)
  have kill: "kill_process_tree flaky_poll_env 0 2 = (None, 3)"
    by (simp add: kill_process_tree_def poll_then_def swallow_def
        flaky_poll_env_def quick_exit_env_def quiet_signals_def)
  have lim: "actual_timeout lenient_spawner None = 600" "task_label (Some ''dev'') = ''dev''"
    by (simp_all add: actual_timeout_def task_label_def lenient_spawner_def default_spawner_def)
  have go: "\<And>err res tid. proceeds lenient_spawner err res tid"
    "\<And>err res tid. \<not> proceeds default_spawner err res tid"
    by (simp_all add: proceeds_def handle_critical_error_def lenient_spawner_def
          default_spawner_def execute_escalation_action_def)
  have hist: "\<And>err. snd (handle_critical_error lenient_spawner err)
                 = lenient_spawner\<lparr>critical_errors := [err]\<rparr>"
    "\<And>err. snd (handle_critical_error default_spawner err)
                 = default_spawner\<lparr>critical_errors := [err]\<rparr>"
    by (simp_all add: handle_critical_error_def lenient_spawner_def default_spawner_def)
  from exception_escalation[OF env1(1), of FileNotFoundError lenient_spawner None 0 "Some ''dev''" pending_task]
    env1(2)
  have a: "spawn_blocking lenient_spawner None (Some ''dev'') no_binary_env
       = Some (Inr (exception_result FileNotFoundError (blocking_task_id ''dev'' no_binary_env)
                      ''dev'' no_binary_env),
               lenient_spawner\<lparr>critical_errors :=
                 [exception_error FileNotFoundError (blocking_task_id ''dev'' no_binary_env)
                    ''dev'' no_binary_env]\<rparr>)"
    by (simp add: Let_def lim go hist)
  from exception_escalation[OF env1(1), of FileNotFoundError default_spawner None 0 "Some ''dev''" pending_task]
    env1(2)
  have b: "spawn_blocking default_spawner None (Some ''dev'') no_binary_env
       = Some (Inl (RuntimeError (''Pipeline stopped due to exception in dev: ''
                                  @ exc_msg FileNotFoundError)),
               default_spawner\<lparr>critical_errors :=
                 [exception_error FileNotFoundError (blocking_task_id ''dev'' no_binary_env)
                    ''dev'' no_binary_env]\<rparr>)"
    and c: "bt_status (fst (snd (the (execute_task default_spawner pending_task no_binary_env)))) = FAILED"
    by (auto simp: Let_def lim go hist)
  from exception_escalation[OF env2(1), of "RuntimeError ''poll failed''" lenient_spawner None 1
      "Some ''dev''" pending_task] env2(2) flaky_poll_raises flaky_poll_quiet
  have d: "fst (the (spawn_blocking lenient_spawner None (Some ''dev'') flaky_poll_env))
       = Inr (exception_result (RuntimeError ''poll failed'')
                (blocking_task_id ''dev'' flaky_poll_env) ''dev'' flaky_poll_env)"
    by (simp add: Let_def lim go)
  from env1 env2 kill a b c d show ?thesis by blast
qed

text \<open>
  Claim C3 as stated fails in three places: on the background path a launch that raises
  ends the task with status \<open>FAILED\<close> and an empty history; in \<open>spawn_blocking\<close> an
  exception of the set-up before the \<open>try\<close> leaves the call as it is, with nothing
  recorded; and when the polls keep raising an exception that is no \<open>OSError\<close>, the
  poll inside the handler's \<open>_kill_process_tree\<close> raises it again, which leaves
  \<open>spawn_blocking\<close> with that exception and an empty history and leaves the background
  task \<open>RUNNING\<close> without a result.
\<close>

theorem unescalated_exception_counterexample:
  "setup_error no_binary_env = None \<and> launch_error no_binary_env = Some FileNotFoundError
   \<and> execute_task default_spawner pending_task no_binary_env \<noteq> None
   \<and> fst (the (execute_task default_spawner pending_task no_binary_env)) = None
   \<and> bt_status (fst (snd (the (execute_task default_spawner pending_task no_binary_env)))) = FAILED
   \<and> get_critical_errors default_spawner = []
   \<and> get_critical_errors (snd (snd (the (execute_task default_spawner pending_task no_binary_env)))) = []
   \<and> map_option critical_error
        (result (fst (snd (the (execute_task default_spawner pending_task no_binary_env)))))
       = Some None
   \<and> setup_error read_only_env \<noteq> None
   \<and> spawn_blocking default_spawner None (Some ''dev'') read_only_env
       = Some (Inl (the (setup_error read_only_env)), default_spawner)
   \<and> setup_error broken_poll_env = None \<and> launch_error broken_poll_env = None
   \<and> poll broken_poll_env 0 = Still_running \<and> elapsed broken_poll_env 0 \<le> 1
   \<and> poll broken_poll_env 1 = Poll_raises (RuntimeError ''poll failed'')
   \<and> poll broken_poll_env 2 = Poll_raises (RuntimeError ''poll failed'')
   \<and> spawn_blocking default_spawner None (Some ''dev'') broken_poll_env
       = Some (Inl (RuntimeError ''poll failed''), default_spawner)
   \<and> fst (the (execute_task default_spawner pending_task broken_poll_env))
       = Some (RuntimeError ''poll failed'')
   \<and> bt_status (fst (snd (the (execute_task default_spawner pending_task broken_poll_env)))) = RUNNING
   \<and> result (fst (snd (the (execute_task default_spawner pending_task broken_poll_env)))) = None"
proof -
  have env1: "setup_error no_binary_env = None" "launch_error no_binary_env = Some FileNotFoundError"
    by (simp_all add: no_binary_env_def quick_exit_env_def)
  have hist: "get_critical_errors default_spawner = []"
    by (simp add: get_critical_errors_def default_spawner_def)
  have bg: "execute_task default_spawner pending_task no_binary_env \<noteq> None"
    "fst (the (execute_task default_spawner pending_task no_binary_env)) = None"
    "bt_status (fst (snd (the (execute_task default_spawner pending_task no_binary_env)))) = FAILED"
    "get_critical_errors (snd (snd (the (execute_task default_spawner pending_task no_binary_env)))) = []"
    "map_option critical_error
        (result (fst (snd (the (execute_task default_spawner pending_task no_binary_env)))))
       = Some None"
    by (simp_all add: execute_task_def Let_def env1 background_handler_def kill_if_started_def hist)
  have fg: "setup_error read_only_env \<noteq> None"
    "spawn_blocking default_spawner None (Some ''dev'') read_only_env
       = Some (Inl (the (setup_error read_only_env)), default_spawner)"
    by (simp_all add: spawn_blocking_def Let_def read_only_env_def)
  have env3: "setup_error broken_poll_env = None" "launch_error broken_poll_env = None"
    "poll broken_poll_env 0 = Still_running" "elapsed broken_poll_env 0 \<le> 1"
    "poll broken_poll_env 1 = Poll_raises (RuntimeError ''poll failed'')"
    "poll broken_poll_env 2 = Poll_raises (RuntimeError ''poll failed'')"
    by (simp_all add: broken_poll_env_def quick_exit_env_def)
  have lim: "actual_timeout default_spawner None = 600" "timeout pending_task = 1"
    by (simp_all add: actual_timeout_def default_spawner_def pending_task_def)
  have r600: "raises_at broken_poll_env 600 1 (RuntimeError ''poll failed'')"
    and r1: "raises_at broken_poll_env 1 1 (RuntimeError ''poll failed'')"
    by (simp_all add: raises_at_def survives_def broken_poll_env_def quick_exit_env_def)
  have k: "kill_process_tree broken_poll_env 0 (Suc (Suc 0)) = (Some (RuntimeError ''poll failed''), 3)"
    using broken_poll_kill[of "Suc (Suc 0)" 0] by simp
  have blocking: "spawn_blocking default_spawner None (Some ''dev'') broken_poll_env
       = Some (Inl (RuntimeError ''poll failed''), default_spawner)"
    using try_body_raised[of broken_poll_env "RuntimeError ''poll failed''" 600 1 default_spawner] r600
    by (simp add: spawn_blocking_def Let_def env3 lim except_handler_def kill_if_started_def k)
  have background:
    "fst (the (execute_task default_spawner pending_task broken_poll_env))
       = Some (RuntimeError ''poll failed'')"
    "bt_status (fst (snd (the (execute_task default_spawner pending_task broken_poll_env)))) = RUNNING"
    "result (fst (snd (the (execute_task default_spawner pending_task broken_poll_env)))) = None"
    using poll_loop_raised[OF r1]
    by (simp_all add: execute_task_def Let_def env3 lim background_handler_def
          kill_if_started_def k pending_task_def)
  from env1 hist bg fg env3 blocking background show ?thesis by blast
qed

end
